theory Spec2Isabelle
  imports Complex_Main "HOL-Library.Multiset"
begin

section \<open>Configuration constants\<close>

text \<open>
  The constants of \<^verbatim>\<open>train_model.py\<close> (lines 11-17) and \<^verbatim>\<open>evaluate_model.py\<close>
  (lines 12-17).
\<close>

definition DATA_DIR :: string where "DATA_DIR = ''dataset/train''"
definition TEST_DATA_DIR :: string where "TEST_DATA_DIR = ''dataset/test''"
definition WINDOW_SIZE :: nat where "WINDOW_SIZE = 25"
definition NUM_FEATURES :: nat where "NUM_FEATURES = 3"
definition NUM_CLASSES :: nat where "NUM_CLASSES = 2"
definition BATCH_SIZE :: nat where "BATCH_SIZE = 16"
definition EVAL_BATCH_SIZE :: nat where "EVAL_BATCH_SIZE = 8"
definition NUM_EPOCHS :: nat where "NUM_EPOCHS = 500"

section \<open>Python values, exceptions and the file system\<close>

datatype py_error =
    IndexError | OSError | TypeError | AttributeError | ValueError
  | ZeroDivisionError | NameError | UnicodeDecodeError | RecursionError

text \<open>
  A number as Python and numpy hold it. Rounding to 32 or 64 bits and the range of a float
  are not modelled: a finite value is carried as a real.
\<close>

datatype pyfloat = Fin real | PosInf | NegInf | NaN

text \<open>
  What \<^verbatim>\<open>json.load\<close> returns. \<open>JObj\<close> holds the items of the parsed \<^verbatim>\<open>dict\<close>; a key
  is looked up with \<open>map_of\<close>.
\<close>

datatype json =
    JNull | JBool bool | JNum pyfloat | JStr string
  | JArr "json list" | JObj "(string \<times> json) list"

text \<open>
  A regular file is modelled by what \<^verbatim>\<open>json.load\<close> makes of it. The call reads the
  file as text and raises \<^verbatim>\<open>UnicodeDecodeError\<close> when the bytes are not text in the
  encoding of the platform (\<open>Undecodable\<close>); the decoder raises \<^verbatim>\<open>JSONDecodeError\<close> on
  text that is not JSON (\<open>Malformed\<close>), raises \<^verbatim>\<open>RecursionError\<close> on text nested deeper
  than the stack of the interpreter allows (\<open>TooDeep\<close>), and otherwise returns a value
  (\<open>Parsed\<close>). \<^verbatim>\<open>UnicodeDecodeError\<close> is a \<^verbatim>\<open>ValueError\<close> and not a
  \<^verbatim>\<open>JSONDecodeError\<close>.
\<close>

datatype file_content = Undecodable | Malformed | TooDeep | Parsed json

text \<open>
  The file system as the two scripts see it: \<open>dirs fs p\<close> is the result of
  \<^verbatim>\<open>os.listdir(p)\<close> when \<open>p\<close> is a directory, in the order the operating system returns
  the names (an order that the names do not fix and the scripts do not sort), and \<open>None\<close> when \<^verbatim>\<open>os.path.isdir(p)\<close> is false; \<open>files fs p\<close> is the content
  of the file that \<^verbatim>\<open>open(p, 'r')\<close> opens, \<open>None\<close> when \<^verbatim>\<open>open\<close> raises an \<^verbatim>\<open>OSError\<close>.
\<close>

record filesystem =
  dirs :: "string \<Rightarrow> string list option"
  files :: "string \<Rightarrow> file_content option"

text \<open>
  What the dataset class prints: the warning of line 36, the error of line 56 and the
  warning of line 69, each with the values it formats.
\<close>

datatype message =
    MissingDir string
  | JsonError string
  | WrongShape string "nat list"

subsection \<open>Path and string primitives\<close>

definition startswith :: "string \<Rightarrow> string \<Rightarrow> bool" where
  "startswith s p = (take (length p) s = p)"

definition endswith :: "string \<Rightarrow> string \<Rightarrow> bool" where
  "endswith s p = (length p \<le> length s \<and> drop (length s - length p) s = p)"

text \<open>\<^verbatim>\<open>os.path.join(a, b)\<close> of \<^verbatim>\<open>posixpath\<close>.\<close>

definition path_join :: "string \<Rightarrow> string \<Rightarrow> string" where
  "path_join a b =
     (if startswith b ''/'' then b
      else if a = [] \<or> endswith a ''/'' then a @ b
      else a @ ''/'' @ b)"

text \<open>Python's \<^verbatim>\<open>xs[i]\<close> for an integer \<open>i\<close>: a negative index counts from the end.\<close>

definition py_getitem :: "'a list \<Rightarrow> int \<Rightarrow> py_error + 'a" where
  "py_getitem xs i =
     (if 0 \<le> i \<and> i < int (length xs) then Inr (xs ! nat i)
      else if i < 0 \<and> - int (length xs) \<le> i then Inr (xs ! nat (i + int (length xs)))
      else Inl IndexError)"

section \<open>The dataset index: \<^verbatim>\<open>HandGestureDataset\<close>\<close>

record dataset =
  data_files :: "string list"
  labels :: "int list"

text \<open>\<^verbatim>\<open>self.label_map\<close>; a \<^verbatim>\<open>dict\<close> iterates in insertion order.\<close>

definition label_map :: "(string \<times> int) list" where
  "label_map = [(''sfondo'', 0), (''tap'', 1)]"

text \<open>
  One round of the outer loop of \<^verbatim>\<open>__init__\<close> (lines 33-42): the entries and the output
  that the class \<open>label_name\<close> adds.
\<close>

definition json_names :: "string list \<Rightarrow> string list" where
  "json_names names = filter (\<lambda>filename. endswith filename ''.json'') names"

definition scan_class ::
  "filesystem \<Rightarrow> string \<Rightarrow> string \<times> int \<Rightarrow> (string \<times> int) list \<times> message list" where
  "scan_class fs data_dir cls =
     (let class_dir = path_join data_dir (fst cls) in
      case dirs fs class_dir of
        None \<Rightarrow> ([], [MissingDir class_dir])
      | Some names \<Rightarrow>
          (map (\<lambda>filename. (path_join class_dir filename, snd cls)) (json_names names), []))"

fun scan_classes ::
  "filesystem \<Rightarrow> string \<Rightarrow> (string \<times> int) list \<Rightarrow> (string \<times> int) list \<times> message list" where
  "scan_classes fs data_dir [] = ([], [])"
| "scan_classes fs data_dir (cls # rest) =
     (let (es, out) = scan_class fs data_dir cls;
          (es', out') = scan_classes fs data_dir rest
      in (es @ es', out @ out'))"

definition HandGestureDataset :: "filesystem \<Rightarrow> string \<Rightarrow> dataset \<times> message list" where
  "HandGestureDataset fs data_dir =
     (let (es, out) = scan_classes fs data_dir label_map
      in (\<lparr>data_files = map fst es, labels = map snd es\<rparr>, out))"

definition len :: "dataset \<Rightarrow> nat" where
  "len ds = length (data_files ds)"

section \<open>The sample loader: \<^verbatim>\<open>HandGestureDataset.__getitem__\<close>\<close>

text \<open>
  A numpy array or torch tensor: its shape and its cells in row-major order.
\<close>

record ndarray =
  shape :: "nat list"
  cells :: "pyfloat list"

type_synonym sample = "ndarray \<times> int"

text \<open>\<^verbatim>\<open>torch.zeros(r, c)\<close>.\<close>

definition zeros :: "nat \<Rightarrow> nat \<Rightarrow> ndarray" where
  "zeros r c = \<lparr>shape = [r, c], cells = replicate (r * c) (Fin 0)\<rparr>"

text \<open>
  \<^verbatim>\<open>for item in data\<close>: a list yields its elements, a \<^verbatim>\<open>dict\<close> its keys, a string its
  characters; a number, a boolean and \<^verbatim>\<open>None\<close> are not iterable.
\<close>

fun py_iter :: "json \<Rightarrow> py_error + json list" where
  "py_iter (JArr xs) = Inr xs"
| "py_iter (JObj kvs) = Inr (map (\<lambda>kv. JStr (fst kv)) kvs)"
| "py_iter (JStr s) = Inr (map (\<lambda>c. JStr [c]) s)"
| "py_iter JNull = Inl TypeError"
| "py_iter (JBool b) = Inl TypeError"
| "py_iter (JNum x) = Inl TypeError"

text \<open>\<^verbatim>\<open>item.get(key, 0.0)\<close>: only a \<^verbatim>\<open>dict\<close> has the method.\<close>

fun item_get :: "json \<Rightarrow> string \<Rightarrow> py_error + json" where
  "item_get (JObj kvs) key =
     Inr (case map_of kvs key of None \<Rightarrow> JNum (Fin 0) | Some v \<Rightarrow> v)"
| "item_get JNull key = Inl AttributeError"
| "item_get (JBool b) key = Inl AttributeError"
| "item_get (JNum x) key = Inl AttributeError"
| "item_get (JStr s) key = Inl AttributeError"
| "item_get (JArr xs) key = Inl AttributeError"

text \<open>The list comprehension \<^verbatim>\<open>[item.get(key, 0.0) for item in data]\<close> over the items.\<close>

fun comprehension :: "string \<Rightarrow> json list \<Rightarrow> py_error + json list" where
  "comprehension key [] = Inr []"
| "comprehension key (item # items) =
     (case item_get item key of
        Inl e \<Rightarrow> Inl e
      | Inr v \<Rightarrow> (case comprehension key items of Inl e \<Rightarrow> Inl e | Inr vs \<Rightarrow> Inr (v # vs)))"

text \<open>Lines 60-62: the three signal lists, in the order in which line 65 stacks them.\<close>

definition feature_rows :: "json \<Rightarrow> py_error + json" where
  "feature_rows data =
     (case py_iter data of
        Inl e \<Rightarrow> Inl e
      | Inr items \<Rightarrow>
         (case comprehension ''relativeYVelocity'' items of
            Inl e \<Rightarrow> Inl e
          | Inr velocity \<Rightarrow>
             (case comprehension ''relativeYAcceleration'' items of
                Inl e \<Rightarrow> Inl e
              | Inr acceleration \<Rightarrow>
                 (case comprehension ''stabilityRatio'' items of
                    Inl e \<Rightarrow> Inl e
                  | Inr velocity_ratio \<Rightarrow>
                      Inr (JArr [JArr velocity, JArr acceleration, JArr velocity_ratio])))))"

subsection \<open>\<^verbatim>\<open>np.array(..., dtype=np.float32)\<close>\<close>

text \<open>
  numpy first finds the shape of the nested lists: every list adds a dimension, and lists
  of one level that differ in shape make the array inhomogeneous (\<open>None\<close>, a
  \<^verbatim>\<open>ValueError\<close>). Then it converts every leaf: a number is kept, a boolean becomes 0 or 1,
  \<^verbatim>\<open>None\<close> becomes nan, a \<^verbatim>\<open>dict\<close> raises \<^verbatim>\<open>TypeError\<close>.

  A string leaf goes through the parser of \<^verbatim>\<open>float\<close>, which is not modelled: every
  string is taken as one that spells no number, a \<^verbatim>\<open>ValueError\<close>. The model is exact for
  the files in which no signal value is a string that spells a number.
\<close>

fun dims :: "json \<Rightarrow> nat list option" where
  "dims (JArr xs) =
     (case map dims xs of
        [] \<Rightarrow> Some [0]
      | d # ds \<Rightarrow>
         (case d of
            None \<Rightarrow> None
          | Some sh \<Rightarrow> if list_all (\<lambda>d'. d' = Some sh) ds then Some (Suc (length ds) # sh) else None))"
| "dims JNull = Some []"
| "dims (JBool b) = Some []"
| "dims (JNum x) = Some []"
| "dims (JStr s) = Some []"
| "dims (JObj kvs) = Some []"

fun leaves :: "json \<Rightarrow> json list" where
  "leaves (JArr xs) = concat (map leaves xs)"
| "leaves JNull = [JNull]"
| "leaves (JBool b) = [JBool b]"
| "leaves (JNum x) = [JNum x]"
| "leaves (JStr s) = [JStr s]"
| "leaves (JObj kvs) = [JObj kvs]"

fun to_float32 :: "json \<Rightarrow> py_error + pyfloat" where
  "to_float32 (JNum x) = Inr x"
| "to_float32 (JBool b) = Inr (Fin (if b then 1 else 0))"
| "to_float32 JNull = Inr NaN"
| "to_float32 (JStr s) = Inl ValueError"
| "to_float32 (JObj kvs) = Inl TypeError"
| "to_float32 (JArr xs) = Inl ValueError"

fun convert_all :: "json list \<Rightarrow> py_error + pyfloat list" where
  "convert_all [] = Inr []"
| "convert_all (j # js) =
     (case to_float32 j of
        Inl e \<Rightarrow> Inl e
      | Inr x \<Rightarrow> (case convert_all js of Inl e \<Rightarrow> Inl e | Inr xs \<Rightarrow> Inr (x # xs)))"

definition np_array :: "json \<Rightarrow> py_error + ndarray" where
  "np_array obj =
     (case dims obj of
        None \<Rightarrow> Inl ValueError
      | Some sh \<Rightarrow>
         (case convert_all (leaves obj) of
            Inl e \<Rightarrow> Inl e
          | Inr xs \<Rightarrow> Inr \<lparr>shape = sh, cells = xs\<rparr>))"

subsection \<open>\<^verbatim>\<open>__getitem__\<close> (lines 48-77)\<close>

text \<open>
  The result is the output printed and either the exception raised or the pair returned.
  The handler of line 54 catches \<^verbatim>\<open>JSONDecodeError\<close> only: the other exceptions of
  \<^verbatim>\<open>json.load\<close> leave \<^verbatim>\<open>__getitem__\<close>.
  The call on a wrong shape (line 71) is a recursion with no bound in the source, so
  the function is partial: \<open>None\<close> is a call that never returns a value (in CPython the
  recursion ends in a \<^verbatim>\<open>RecursionError\<close> once the stack is used up).
\<close>

partial_function (option) getitem ::
  "filesystem \<Rightarrow> dataset \<Rightarrow> int \<Rightarrow> (message list \<times> (py_error + sample)) option" where
  "getitem fs ds idx =
     (case py_getitem (data_files ds) idx of
        Inl e \<Rightarrow> Some ([], Inl e)
      | Inr file_path \<Rightarrow>
         (case files fs file_path of
            None \<Rightarrow> Some ([], Inl OSError)
          | Some Undecodable \<Rightarrow> Some ([], Inl UnicodeDecodeError)
          | Some Malformed \<Rightarrow>
              Some ([JsonError file_path], Inr (zeros NUM_FEATURES WINDOW_SIZE, 0))
          | Some TooDeep \<Rightarrow> Some ([], Inl RecursionError)
          | Some (Parsed data) \<Rightarrow>
             (case feature_rows data of
                Inl e \<Rightarrow> Some ([], Inl e)
              | Inr rows \<Rightarrow>
                 (case np_array rows of
                    Inl e \<Rightarrow> Some ([], Inl e)
                  | Inr features \<Rightarrow>
                     if shape features \<noteq> [NUM_FEATURES, WINDOW_SIZE] then
                       (if len ds = 0 then
                          Some ([WrongShape file_path (shape features)], Inl ZeroDivisionError)
                        else
                          Option.bind (getitem fs ds ((idx + 1) mod int (len ds)))
                            (\<lambda>r. Some (WrongShape file_path (shape features) # fst r, snd r)))
                     else
                       (case py_getitem (labels ds) idx of
                          Inl e \<Rightarrow> Some ([], Inl e)
                        | Inr l \<Rightarrow> Some ([], Inr (features, l)))))))"

declare getitem.simps [code]

section \<open>The batch assembler\<close>

text \<open>
  Modelled from the spec: the Batch Assembler is \<^verbatim>\<open>torch.utils.data.DataLoader\<close>, which
  is not part of the sources; they only construct it (\<^verbatim>\<open>train_model.py\<close> line 126,
  \<^verbatim>\<open>evaluate_model.py\<close> line 25). Section 4.3 of the specification: the indices are
  traversed in order \<open>0..size()-1\<close>, or in an order randomised once per pass; they are
  grouped into batches of the requested size; a final under-sized batch is dropped or
  kept. A batch size of 0 is rejected by the library and yields no batch here.
\<close>

function batch_sampler :: "nat \<Rightarrow> bool \<Rightarrow> 'a list \<Rightarrow> 'a list list" where
  "batch_sampler batch_size drop_last xs =
     (if batch_size = 0 \<or> xs = [] then []
      else if length xs < batch_size then (if drop_last then [] else [xs])
      else take batch_size xs # batch_sampler batch_size drop_last (drop batch_size xs))"
  by pat_completeness auto
termination
  by (relation "measure (\<lambda>(batch_size, drop_last, xs). length xs)") auto

declare batch_sampler.simps [simp del]

text \<open>
  Modelled from the spec: the order of one pass of the Batch Assembler, index order or an
  order randomised by the random source of the process. The random source is a parameter:
  \<open>keys i\<close> is the random key drawn for index \<open>i\<close>, and the indices are visited by
  increasing key, which gives every permutation for some keys and nothing but
  permutations.
\<close>

definition sampler :: "bool \<Rightarrow> (nat \<Rightarrow> nat) \<Rightarrow> nat \<Rightarrow> nat list" where
  "sampler shuffle keys n = (if shuffle then sort_key keys [0..<n] else [0..<n])"

text \<open>
  Modelled from the spec: one batch of the Batch Assembler, the samples \<^verbatim>\<open>dataset[i]\<close> of
  the indices of the batch, stacked in order; the first exception ends the fetch.
\<close>

fun fetch ::
  "filesystem \<Rightarrow> dataset \<Rightarrow> nat list \<Rightarrow> (message list \<times> (py_error + sample list)) option" where
  "fetch fs ds [] = Some ([], Inr [])"
| "fetch fs ds (i # rest) =
     Option.bind (getitem fs ds (int i))
       (\<lambda>r. case snd r of
              Inl e \<Rightarrow> Some (fst r, Inl e)
            | Inr s \<Rightarrow>
                Option.bind (fetch fs ds rest)
                  (\<lambda>r'. Some (fst r @ fst r',
                              case snd r' of Inl e \<Rightarrow> Inl e | Inr ss \<Rightarrow> Inr (s # ss))))"

section \<open>The two scripts\<close>

text \<open>
  The numerics library is a parameter: the weights of a freshly constructed \<^verbatim>\<open>CNNLSTM\<close>,
  one optimisation step on a batch (lines 139-146 of \<^verbatim>\<open>train_model.py\<close>: forward pass,
  loss, backward pass, update) with the loss it computes, the two scores the network gives
  one feature matrix, and the random keys of the shuffle of each epoch.
\<close>

record ('w, 'l) torch =
  initial_weights :: 'w
  train_step :: "'w \<Rightarrow> sample list \<Rightarrow> 'w \<times> 'l"
  forward :: "'w \<Rightarrow> ndarray \<Rightarrow> real \<times> real"
  random_keys :: "nat \<Rightarrow> nat \<Rightarrow> nat"

text \<open>
  What a script prints and the library calls that do work, in order. \<open>Msg\<close> is a line
  printed as it stands and \<open>Log\<close> a line of the dataset class; \<open>LoaderCreated\<close> has the
  batch size, \<^verbatim>\<open>shuffle\<close> and \<^verbatim>\<open>drop_last\<close> of the \<^verbatim>\<open>DataLoader\<close>; \<open>TrainStep\<close> is one
  pass of lines 139-146 and \<open>EpochLoss\<close> the line printed by line 149; \<open>CoreMLSaved\<close> is
  the conversion of lines 158-183 and \<open>CoreMLInfo\<close> the lines printed by lines 186-189;
  \<open>Forward\<close> is one pass of lines 39-44 of the evaluation; the last three are the lines
  printed for the accuracy (the value of \<^verbatim>\<open>accuracy\<close>, before it is formatted), the
  confusion matrix and the classification report.
\<close>

datatype ('w, 'l) event =
    Msg string
  | Log message
  | LoaderCreated nat bool bool
  | ModelCreated
  | TrainStep
  | EpochLoss nat 'l
  | WeightsSaved 'w
  | CoreMLSaved 'w
  | CoreMLInfo
  | WeightsLoaded 'w
  | Forward
  | AccuracyReport rat
  | ConfusionReport "nat list list"
  | ClassificationReport "string list" "string list"

text \<open>
  How a script ends: it runs to its last line, \<^verbatim>\<open>exit(code)\<close> raises \<^verbatim>\<open>SystemExit\<close>,
  or another exception reaches the top level.
\<close>

datatype 'a outcome = Finished 'a | SystemExit "int option" | Uncaught py_error

text \<open>
  The exit status of the interpreter: 0 at the end of the script and for
  \<^verbatim>\<open>SystemExit(None)\<close>, the code of \<^verbatim>\<open>SystemExit(code)\<close>, 1 after a traceback.
\<close>

fun exit_status :: "'a outcome \<Rightarrow> int" where
  "exit_status (Finished x) = 0"
| "exit_status (SystemExit None) = 0"
| "exit_status (SystemExit (Some code)) = code"
| "exit_status (Uncaught e) = 1"

subsection \<open>\<^verbatim>\<open>train_model.py\<close>, lines 118-189\<close>

text \<open>
  The inner loop (lines 137-146) over the batches of one epoch. The state is the weights
  and the module-level variable \<^verbatim>\<open>loss\<close>, \<open>None\<close> while it has never been assigned.
\<close>

fun train_batches ::
  "('w, 'l) torch \<Rightarrow> filesystem \<Rightarrow> dataset \<Rightarrow> nat list list \<Rightarrow> 'w \<times> 'l option \<Rightarrow>
   (('w, 'l) event list \<times> (py_error + 'w \<times> 'l option)) option" where
  "train_batches lib fs ds [] st = Some ([], Inr st)"
| "train_batches lib fs ds (b # bs) st =
     Option.bind (fetch fs ds b)
       (\<lambda>r. case snd r of
              Inl e \<Rightarrow> Some (map Log (fst r), Inl e)
            | Inr batch \<Rightarrow>
                Option.bind
                  (train_batches lib fs ds bs
                     (fst (train_step lib (fst st) batch),
                      Some (snd (train_step lib (fst st) batch))))
                  (\<lambda>r'. Some (map Log (fst r) @ TrainStep # fst r', snd r')))"

text \<open>
  The outer loop (lines 136-149). Line 149 reads \<^verbatim>\<open>loss\<close>: a \<^verbatim>\<open>NameError\<close> when no
  batch has assigned it.
\<close>

fun train_epochs ::
  "('w, 'l) torch \<Rightarrow> filesystem \<Rightarrow> dataset \<Rightarrow> nat list \<Rightarrow> 'w \<times> 'l option \<Rightarrow>
   (('w, 'l) event list \<times> (py_error + 'w \<times> 'l option)) option" where
  "train_epochs lib fs ds [] st = Some ([], Inr st)"
| "train_epochs lib fs ds (epoch # rest) st =
     Option.bind
       (train_batches lib fs ds
          (batch_sampler BATCH_SIZE True (sampler True (random_keys lib epoch) (len ds))) st)
       (\<lambda>r. case snd r of
              Inl e \<Rightarrow> Some (fst r, Inl e)
            | Inr st' \<Rightarrow>
               (case snd st' of
                  None \<Rightarrow> Some (fst r, Inl NameError)
                | Some l \<Rightarrow>
                    Option.bind (train_epochs lib fs ds rest st')
                      (\<lambda>r'. Some (fst r @ EpochLoss (epoch + 1) l # fst r', snd r'))))"

definition train_model ::
  "('w, 'l) torch \<Rightarrow> filesystem \<Rightarrow> (('w, 'l) event list \<times> 'w outcome) option" where
  "train_model lib fs =
     (let train_dataset = fst (HandGestureDataset fs DATA_DIR);
          start = Msg ''Caricamento dati...'' # map Log (snd (HandGestureDataset fs DATA_DIR))
      in
      if len train_dataset = 0 then
        Some (start @
                [Msg (''Errore: Nessun dato trovato nella cartella di training. '' @
                      ''Controlla il percorso e la struttura delle cartelle.'')],
              SystemExit None)
      else
        Option.bind
          (train_epochs lib fs train_dataset [0..<NUM_EPOCHS] (initial_weights lib, None))
          (\<lambda>r. let trace = start @
                       [LoaderCreated BATCH_SIZE True True,
                        Msg ''Inizializzazione modello...'', ModelCreated,
                        Msg ''Inizio training...''] @ fst r
                in case snd r of
                     Inl e \<Rightarrow> Some (trace, Uncaught e)
                   | Inr st \<Rightarrow>
                       Some (trace @
                               [Msg ''Training completato!'', WeightsSaved (fst st),
                                Msg ''Pesi del modello PyTorch salvati in tap_model_weights.pth'',
                                Msg ''Conversione del modello in Core ML...'',
                                CoreMLSaved (fst st), CoreMLInfo],
                             Finished (fst st))))"

subsection \<open>\<^verbatim>\<open>evaluate_model.py\<close>\<close>

text \<open>\<^verbatim>\<open>torch.max(outputs.data, 1)\<close>: the index of the first maximal score.\<close>

definition argmax :: "real \<times> real \<Rightarrow> int" where
  "argmax scores = (if fst scores < snd scores then 1 else 0)"

text \<open>The loop of lines 38-44: the true labels and the predictions of every batch.\<close>

fun predict_batches ::
  "('w, 'l) torch \<Rightarrow> filesystem \<Rightarrow> dataset \<Rightarrow> 'w \<Rightarrow> nat list list \<Rightarrow> int list \<times> int list \<Rightarrow>
   (('w, 'l) event list \<times> (py_error + int list \<times> int list)) option" where
  "predict_batches lib fs ds w [] acc = Some ([], Inr acc)"
| "predict_batches lib fs ds w (b # bs) acc =
     Option.bind (fetch fs ds b)
       (\<lambda>r. case snd r of
              Inl e \<Rightarrow> Some (map Log (fst r), Inl e)
            | Inr batch \<Rightarrow>
                Option.bind
                  (predict_batches lib fs ds w bs
                     (fst acc @ map snd batch,
                      snd acc @ map (\<lambda>s. argmax (forward lib w (fst s))) batch))
                  (\<lambda>r'. Some (map Log (fst r) @ Forward # fst r', snd r')))"

text \<open>
  Modelled from the spec: \<^verbatim>\<open>accuracy_score\<close> and \<^verbatim>\<open>confusion_matrix\<close> of
  \<^verbatim>\<open>sklearn.metrics\<close> are not part of the sources. Section 4.6 of the specification:
  the accuracy is the fraction of exact matches; the confusion matrix has one row per
  true class and one column per predicted class, in the order of the class list. The
  script calls them with two lists of one length, which is not 0.
\<close>

definition accuracy_score :: "'a list \<Rightarrow> 'a list \<Rightarrow> rat" where
  "accuracy_score y_true y_pred =
     of_nat (length (filter (\<lambda>tp. fst tp = snd tp) (zip y_true y_pred))) /
     of_nat (length y_true)"

definition confusion_matrix :: "'a list \<Rightarrow> 'a list \<Rightarrow> 'a list \<Rightarrow> nat list list" where
  "confusion_matrix y_true y_pred class_list =
     map (\<lambda>t. map (\<lambda>p. length (filter (\<lambda>tp. tp = (t, p)) (zip y_true y_pred))) class_list)
       class_list"

definition class_names :: "string list" where
  "class_names = [''sfondo'', ''tap'']"

text \<open>The comprehensions of lines 49-50: \<^verbatim>\<open>[class_names[i] for i in ...]\<close>.\<close>

fun named :: "int list \<Rightarrow> py_error + string list" where
  "named [] = Inr []"
| "named (i # rest) =
     (case py_getitem class_names i of
        Inl e \<Rightarrow> Inl e
      | Inr name \<Rightarrow> (case named rest of Inl e \<Rightarrow> Inl e | Inr names \<Rightarrow> Inr (name # names)))"

text \<open>Lines 48-67: what the script reports for the labels and predictions collected.\<close>

definition report :: "int list \<Rightarrow> int list \<Rightarrow> py_error + ('w, 'l) event list" where
  "report all_labels all_predictions =
     (case named all_labels of
        Inl e \<Rightarrow> Inl e
      | Inr all_labels_named \<Rightarrow>
         (case named all_predictions of
            Inl e \<Rightarrow> Inl e
          | Inr all_predictions_named \<Rightarrow>
              Inr [AccuracyReport (accuracy_score all_labels all_predictions),
                   ConfusionReport
                     (confusion_matrix all_labels_named all_predictions_named class_names),
                   ClassificationReport all_labels_named all_predictions_named]))"

text \<open>
  Lines 20-67, after the imports; \<open>w\<close> is what \<^verbatim>\<open>torch.load\<close> reads from the weights
  file.
\<close>

definition evaluate_main ::
  "('w, 'l) torch \<Rightarrow> filesystem \<Rightarrow> 'w \<Rightarrow> (('w, 'l) event list \<times> unit outcome) option" where
  "evaluate_main lib fs w =
     (let test_dataset = fst (HandGestureDataset fs TEST_DATA_DIR);
          start = Msg ''Caricamento dati di test...'' #
                  map Log (snd (HandGestureDataset fs TEST_DATA_DIR))
      in
      if len test_dataset = 0 then
        Some (start @
                [Msg (''Errore: Nessun dato trovato nella cartella di test: '' @ TEST_DATA_DIR)],
              SystemExit None)
      else
        Option.bind
          (predict_batches lib fs test_dataset w
             (batch_sampler EVAL_BATCH_SIZE False (sampler False (\<lambda>i. i) (len test_dataset)))
             ([], []))
          (\<lambda>r. let trace = start @
                       [LoaderCreated EVAL_BATCH_SIZE False False,
                        Msg ''Caricamento modello addestrato...'', ModelCreated,
                        WeightsLoaded w,
                        Msg ''Esecuzione delle predizioni sul test set...''] @ fst r
                in case snd r of
                     Inl e \<Rightarrow> Some (trace, Uncaught e)
                   | Inr acc \<Rightarrow>
                      (case report (fst acc) (snd acc) of
                         Inl e \<Rightarrow> Some (trace, Uncaught e)
                       | Inr lines \<Rightarrow> Some (trace @ lines, Finished ()))))"

text \<open>
  The whole of \<^verbatim>\<open>evaluate_model.py\<close>. Line 9 imports \<^verbatim>\<open>train_model\<close>, which runs that
  module from its first line to its last; only then do lines 20-67 run, with the weights
  the import has just saved.
\<close>

definition evaluate_model ::
  "('w, 'l) torch \<Rightarrow> filesystem \<Rightarrow> (('w, 'l) event list \<times> unit outcome) option" where
  "evaluate_model lib fs =
     Option.bind (train_model lib fs)
       (\<lambda>r. case snd r of
              SystemExit code \<Rightarrow> Some (fst r, SystemExit code)
            | Uncaught e \<Rightarrow> Some (fst r, Uncaught e)
            | Finished w \<Rightarrow>
                Option.bind (evaluate_main lib fs w)
                  (\<lambda>r'. Some (fst r @ fst r', snd r')))"

section \<open>Notions of the specification\<close>

text \<open>
  The properties below are stated with these definitions, which follow the words of the
  specification and are not part of the program.
\<close>

text \<open>
  The number of \<^verbatim>\<open>*.json\<close> names in the class subdirectory \<open>name\<close> of \<open>data_dir\<close>, 0 when
  the subdirectory does not exist, and the paths of these files in enumeration order.
\<close>

definition json_count :: "filesystem \<Rightarrow> string \<Rightarrow> string \<Rightarrow> nat" where
  "json_count fs data_dir name =
     (case dirs fs (path_join data_dir name) of
        None \<Rightarrow> 0
      | Some names \<Rightarrow> length (filter (\<lambda>filename. endswith filename ''.json'') names))"

definition class_files :: "filesystem \<Rightarrow> string \<Rightarrow> string \<Rightarrow> string list" where
  "class_files fs data_dir name =
     (case dirs fs (path_join data_dir name) of
        None \<Rightarrow> []
      | Some names \<Rightarrow>
          map (path_join (path_join data_dir name))
            (filter (\<lambda>filename. endswith filename ''.json'') names))"

text \<open>
  A frame record: an object in which each of the three signals is either missing or a
  number.
\<close>

definition signal_keys :: "string list" where
  "signal_keys = [''relativeYVelocity'', ''relativeYAcceleration'', ''stabilityRatio'']"

fun is_number :: "json \<Rightarrow> bool" where
  "is_number (JNum x) = True"
| "is_number JNull = False"
| "is_number (JBool b) = False"
| "is_number (JStr s) = False"
| "is_number (JArr xs) = False"
| "is_number (JObj kvs) = False"

fun object_items :: "json \<Rightarrow> (string \<times> json) list" where
  "object_items (JObj kvs) = kvs"
| "object_items JNull = []"
| "object_items (JBool b) = []"
| "object_items (JNum x) = []"
| "object_items (JStr s) = []"
| "object_items (JArr xs) = []"

fun frame_record :: "json \<Rightarrow> bool" where
  "frame_record (JObj kvs) =
     list_all (\<lambda>key. case map_of kvs key of None \<Rightarrow> True | Some v \<Rightarrow> is_number v) signal_keys"
| "frame_record JNull = False"
| "frame_record (JBool b) = False"
| "frame_record (JNum x) = False"
| "frame_record (JStr s) = False"
| "frame_record (JArr xs) = False"

text \<open>The value of a signal in a frame record: 0.0 for a missing key.\<close>

fun signal_value :: "string \<Rightarrow> json \<Rightarrow> pyfloat" where
  "signal_value key (JObj kvs) =
     (case map_of kvs key of Some (JNum x) \<Rightarrow> x | _ \<Rightarrow> Fin 0)"
| "signal_value key JNull = Fin 0"
| "signal_value key (JBool b) = Fin 0"
| "signal_value key (JNum x) = Fin 0"
| "signal_value key (JStr s) = Fin 0"
| "signal_value key (JArr xs) = Fin 0"

text \<open>
  A defective sample: the file parses, the feature matrix is assembled, and its shape is
  not \<open>(3, window_length)\<close>.
\<close>

definition wrong_shape :: "filesystem \<Rightarrow> string \<Rightarrow> bool" where
  "wrong_shape fs file_path =
     (case files fs file_path of
        Some (Parsed data) \<Rightarrow>
          (case feature_rows data of
             Inr rows \<Rightarrow>
               (case np_array rows of
                  Inr features \<Rightarrow> shape features \<noteq> [NUM_FEATURES, WINDOW_SIZE]
                | Inl e \<Rightarrow> False)
           | Inl e \<Rightarrow> False)
      | _ \<Rightarrow> False)"

text \<open>
  The sample that \<^verbatim>\<open>__getitem__\<close> returns for an index, \<open>None\<close> when it raises or does not
  return; the true labels and the predictions of one pass over the dataset in index order.
\<close>

definition loaded :: "filesystem \<Rightarrow> dataset \<Rightarrow> nat \<Rightarrow> sample option" where
  "loaded fs ds i =
     (case getitem fs ds (int i) of
        None \<Rightarrow> None
      | Some r \<Rightarrow> (case snd r of Inl e \<Rightarrow> None | Inr s \<Rightarrow> Some s))"

definition true_labels :: "filesystem \<Rightarrow> dataset \<Rightarrow> int list" where
  "true_labels fs ds = map (\<lambda>i. snd (the (loaded fs ds i))) [0..<len ds]"

definition predictions :: "('w, 'l) torch \<Rightarrow> 'w \<Rightarrow> filesystem \<Rightarrow> dataset \<Rightarrow> int list" where
  "predictions lib w fs ds =
     map (\<lambda>i. argmax (forward lib w (fst (the (loaded fs ds i))))) [0..<len ds]"

text \<open>Label sequences over the two class indices, and the class name of an index.\<close>

definition binary :: "int list \<Rightarrow> bool" where
  "binary xs = list_all (\<lambda>i. i = 0 \<or> i = 1) xs"

definition name_of :: "int \<Rightarrow> string" where
  "name_of i = (if i = 0 then ''sfondo'' else ''tap'')"

text \<open>The number of samples with true class \<open>t\<close> and predicted class \<open>p\<close>.\<close>

definition pairs :: "'a list \<Rightarrow> 'a list \<Rightarrow> 'a \<Rightarrow> 'a \<Rightarrow> nat" where
  "pairs y_true y_pred t p = length (filter (\<lambda>tp. tp = (t, p)) (zip y_true y_pred))"

section \<open>Example inputs\<close>

text \<open>A valid window: 25 frame records, the first without any signal key.\<close>

definition window :: json where
  "window =
     JArr (JObj [] #
           replicate 24 (JObj [(''relativeYVelocity'', JNum (Fin 1)),
                               (''stabilityRatio'', JNum (Fin 2)),
                               (''timestamp'', JStr ''t'')]))"

text \<open>
  A training directory with four samples: a valid window, a window of 24 frames, a file
  that is not JSON in the class \<open>tap\<close>, and an empty array.
\<close>

definition train_dirs :: "string \<Rightarrow> string list option" where
  "train_dirs p =
     (if p = ''dataset/train/sfondo'' then Some [''a.json'', ''notes.txt'', ''b.json'']
      else if p = ''dataset/train/tap'' then Some [''c.json'', ''d.json'']
      else None)"

definition train_files :: "string \<Rightarrow> file_content option" where
  "train_files p =
     (if p = ''dataset/train/sfondo/a.json'' then Some (Parsed window)
      else if p = ''dataset/train/sfondo/b.json'' then Some (Parsed (JArr (replicate 24 (JObj []))))
      else if p = ''dataset/train/tap/c.json'' then Some Malformed
      else if p = ''dataset/train/tap/d.json'' then Some (Parsed (JArr []))
      else None)"

definition small_fs :: filesystem where
  "small_fs = \<lparr>dirs = train_dirs, files = train_files\<rparr>"

definition small_ds :: dataset where
  "small_ds =
     \<lparr>data_files = [''dataset/train/sfondo/a.json'', ''dataset/train/sfondo/b.json'',
                     ''dataset/train/tap/c.json'', ''dataset/train/tap/d.json''],
      labels = [0, 0, 1, 1]\<rparr>"

text \<open>The same directories with every file unreadable.\<close>

definition unreadable_fs :: filesystem where
  "unreadable_fs = \<lparr>dirs = train_dirs, files = (\<lambda>p. None)\<rparr>"

text \<open>The same directories and files, the class \<open>sfondo\<close> enumerated in another order.\<close>

definition reordered_fs :: filesystem where
  "reordered_fs =
     \<lparr>dirs = (\<lambda>p. if p = ''dataset/train/sfondo'' then Some [''b.json'', ''notes.txt'', ''a.json'']
                   else train_dirs p),
      files = train_files\<rparr>"


text \<open>A training directory without the class \<open>tap\<close>, whose only sample is an empty array.\<close>

definition defective_fs :: filesystem where
  "defective_fs =
     \<lparr>dirs = (\<lambda>p. if p = ''dataset/train/sfondo'' then Some [''a.json''] else None),
      files = (\<lambda>p. if p = ''dataset/train/sfondo/a.json'' then Some (Parsed (JArr [])) else None)\<rparr>"

definition defective_ds :: dataset where
  "defective_ds = \<lparr>data_files = [''dataset/train/sfondo/a.json''], labels = [0]\<rparr>"

text \<open>No dataset directory at all.\<close>

definition no_dataset :: filesystem where
  "no_dataset = \<lparr>dirs = (\<lambda>p. None), files = (\<lambda>p. None)\<rparr>"

text \<open>
  A test directory with three samples: a valid window in each class and a file that is not
  JSON in the class \<open>tap\<close>.
\<close>

definition test_fs :: filesystem where
  "test_fs =
     \<lparr>dirs = (\<lambda>p. if p = ''dataset/test/sfondo'' then Some [''a.json'']
                   else if p = ''dataset/test/tap'' then Some [''b.json'', ''c.json'']
                   else None),
      files = (\<lambda>p. if p = ''dataset/test/sfondo/a.json'' then Some (Parsed window)
                    else if p = ''dataset/test/tap/b.json'' then Some (Parsed window)
                    else if p = ''dataset/test/tap/c.json'' then Some Malformed
                    else None)\<rparr>"

definition test_ds :: dataset where
  "test_ds =
     \<lparr>data_files = [''dataset/test/sfondo/a.json'', ''dataset/test/tap/b.json'',
                     ''dataset/test/tap/c.json''],
      labels = [0, 1, 1]\<rparr>"

text \<open>
  A library whose weights count the optimisation steps and whose network scores a matrix by
  its second cell.
\<close>

definition counting_lib :: "(nat, nat) torch" where
  "counting_lib =
     \<lparr>initial_weights = 0,
      train_step = (\<lambda>w batch. (Suc w, length batch)),
      forward = (\<lambda>w features. if cells features ! 1 = Fin 1 then (0, 1) else (1, 0)),
      random_keys = (\<lambda>epoch i. i)\<rparr>"

section \<open>The dataset index\<close>

lemma scan_class_entries:
  "fst (scan_class fs data_dir (name, l)) = map (\<lambda>p. (p, l)) (class_files fs data_dir name)"
  by (simp add: scan_class_def class_files_def json_names_def comp_def split: option.splits)

lemma scan_class_output:
  "snd (scan_class fs data_dir (name, l)) =
     (if dirs fs (path_join data_dir name) = None then [MissingDir (path_join data_dir name)]
      else [])"
  by (auto simp add: scan_class_def Let_def split: option.splits)

lemma length_class_files: "length (class_files fs data_dir name) = json_count fs data_dir name"
  by (simp add: class_files_def json_count_def split: option.splits)

lemma HandGestureDataset_data_files:
  "data_files (fst (HandGestureDataset fs data_dir)) =
     class_files fs data_dir ''sfondo'' @ class_files fs data_dir ''tap''"
  by (simp add: HandGestureDataset_def label_map_def split_beta Let_def scan_class_entries
      comp_def)

lemma HandGestureDataset_labels:
  "labels (fst (HandGestureDataset fs data_dir)) =
     replicate (json_count fs data_dir ''sfondo'') 0 @ replicate (json_count fs data_dir ''tap'') 1"
  by (simp add: HandGestureDataset_def label_map_def split_beta Let_def scan_class_entries
      comp_def map_replicate_const length_class_files)

lemma HandGestureDataset_output:
  "snd (HandGestureDataset fs data_dir) =
     map (\<lambda>name. MissingDir (path_join data_dir name))
       (filter (\<lambda>name. dirs fs (path_join data_dir name) = None) [''sfondo'', ''tap''])"
  by (simp add: HandGestureDataset_def label_map_def split_beta Let_def scan_class_output)

lemma HandGestureDataset_labels_length:
  "length (labels (fst (HandGestureDataset fs data_dir))) = len (fst (HandGestureDataset fs data_dir))"
  by (simp add: len_def HandGestureDataset_data_files HandGestureDataset_labels
      length_class_files)

lemma HandGestureDataset_labels_binary:
  "binary (labels (fst (HandGestureDataset fs data_dir)))"
  by (auto simp add: HandGestureDataset_labels binary_def list_all_iff)

lemma small_dataset: "HandGestureDataset small_fs DATA_DIR = (small_ds, [])"
  by code_simp

lemma defective_dataset:
  "HandGestureDataset defective_fs DATA_DIR = (defective_ds, [MissingDir ''dataset/train/tap''])"
  by code_simp

text \<open>
  Claim C7. For every root directory, the size of the dataset index is the number of names
  ending in \<^verbatim>\<open>.json\<close> in the class subdirectory \<^verbatim>\<open>sfondo\<close> (the background class) plus
  that number in the class subdirectory \<^verbatim>\<open>tap\<close>; a class subdirectory that does not exist
  counts 0, and the constructor prints one warning for it and nothing else. The constructor
  has no error result.
\<close>

theorem dataset_size:
  "len (fst (HandGestureDataset fs data_dir)) =
     json_count fs data_dir ''sfondo'' + json_count fs data_dir ''tap'' \<and>
   (dirs fs (path_join data_dir ''sfondo'') = None \<longrightarrow> json_count fs data_dir ''sfondo'' = 0) \<and>
   (dirs fs (path_join data_dir ''tap'') = None \<longrightarrow> json_count fs data_dir ''tap'' = 0) \<and>
   snd (HandGestureDataset fs data_dir) =
     map (\<lambda>name. MissingDir (path_join data_dir name))
       (filter (\<lambda>name. dirs fs (path_join data_dir name) = None) [''sfondo'', ''tap''])"
  by (simp add: len_def HandGestureDataset_data_files HandGestureDataset_output
      length_class_files json_count_def)

theorem dataset_size_witness:
  "len (fst (HandGestureDataset defective_fs DATA_DIR)) = 1 + 0 \<and>
   dirs defective_fs (path_join DATA_DIR ''tap'') = None \<and>
   json_count defective_fs DATA_DIR ''tap'' = 0 \<and>
   snd (HandGestureDataset defective_fs DATA_DIR) = [MissingDir ''dataset/train/tap'']"
proof -
  have "json_count defective_fs DATA_DIR ''sfondo'' = 1"
    and "dirs defective_fs (path_join DATA_DIR ''tap'') = None"
    and "dirs defective_fs (path_join DATA_DIR ''sfondo'') \<noteq> None"
    and "path_join DATA_DIR ''tap'' = ''dataset/train/tap''"
    by code_simp+
  with dataset_size [of defective_fs DATA_DIR] show ?thesis by simp
qed

lemma mset_class_files:
  assumes "map_option mset (dirs fs (path_join data_dir name)) =
           map_option mset (dirs fs' (path_join data_dir name))"
  shows "mset (class_files fs data_dir name) = mset (class_files fs' data_dir name)"
proof (cases "dirs fs (path_join data_dir name)")
  case None
  with assms have "dirs fs' (path_join data_dir name) = None" by simp
  with None show ?thesis by (simp add: class_files_def)
next
  case (Some names)
  with assms obtain names' where s: "dirs fs' (path_join data_dir name) = Some names'"
    and m: "mset names = mset names'"
    by (cases "dirs fs' (path_join data_dir name)") auto
  from m have "mset (filter (\<lambda>filename. endswith filename ''.json'') names) =
      mset (filter (\<lambda>filename. endswith filename ''.json'') names')"
    by (simp only: mset_filter)
  then have "mset (map (path_join (path_join data_dir name))
        (filter (\<lambda>filename. endswith filename ''.json'') names)) =
      mset (map (path_join (path_join data_dir name))
        (filter (\<lambda>filename. endswith filename ''.json'') names'))"
    by (simp only: mset_map)
  with Some s show ?thesis by (simp add: class_files_def)
qed

lemma json_count_same_names:
  assumes "map_option mset (dirs fs (path_join data_dir name)) =
           map_option mset (dirs fs' (path_join data_dir name))"
  shows "json_count fs data_dir name = json_count fs' data_dir name"
proof -
  from mset_class_files [OF assms]
  have "length (class_files fs data_dir name) = length (class_files fs' data_dir name)"
    by (rule mset_eq_length)
  then show ?thesis by (simp add: length_class_files)
qed

lemma missing_same_names:
  assumes "map_option mset (dirs fs p) = map_option mset (dirs fs' p)"
  shows "(dirs fs p = None) = (dirs fs' p = None)"
  using assms by (cases "dirs fs p"; cases "dirs fs' p") simp_all

text \<open>
  Claim C9 as stated fails: the same class directories with the same files, the names of
  \<^verbatim>\<open>sfondo\<close> enumerated once as \<open>a.json, notes.txt, b.json\<close> and once as
  \<open>b.json, notes.txt, a.json\<close>, give two different entry sequences. The constructor takes
  the names in the order of \<^verbatim>\<open>os.listdir\<close> and does not sort them.
\<close>

theorem dataset_entries_reordered:
  "files reordered_fs = files small_fs \<and>
   dirs small_fs ''dataset/train/sfondo'' = Some [''a.json'', ''notes.txt'', ''b.json''] \<and>
   dirs reordered_fs ''dataset/train/sfondo'' = Some [''b.json'', ''notes.txt'', ''a.json''] \<and>
   dirs reordered_fs ''dataset/train/tap'' = dirs small_fs ''dataset/train/tap'' \<and>
   data_files (fst (HandGestureDataset small_fs DATA_DIR)) =
     [''dataset/train/sfondo/a.json'', ''dataset/train/sfondo/b.json'',
      ''dataset/train/tap/c.json'', ''dataset/train/tap/d.json''] \<and>
   data_files (fst (HandGestureDataset reordered_fs DATA_DIR)) =
     [''dataset/train/sfondo/b.json'', ''dataset/train/sfondo/a.json'',
      ''dataset/train/tap/c.json'', ''dataset/train/tap/d.json''] \<and>
   HandGestureDataset small_fs DATA_DIR \<noteq> HandGestureDataset reordered_fs DATA_DIR"
proof -
  have f: "files reordered_fs = files small_fs"
    and d: "dirs small_fs ''dataset/train/sfondo'' = Some [''a.json'', ''notes.txt'', ''b.json'']"
      "dirs reordered_fs ''dataset/train/sfondo'' = Some [''b.json'', ''notes.txt'', ''a.json'']"
      "dirs reordered_fs ''dataset/train/tap'' = dirs small_fs ''dataset/train/tap''"
    by (simp_all add: reordered_fs_def small_fs_def train_dirs_def)
  have a: "data_files (fst (HandGestureDataset small_fs DATA_DIR)) =
     [''dataset/train/sfondo/a.json'', ''dataset/train/sfondo/b.json'',
      ''dataset/train/tap/c.json'', ''dataset/train/tap/d.json'']"
    by (simp add: small_dataset small_ds_def)
  have b: "data_files (fst (HandGestureDataset reordered_fs DATA_DIR)) =
     [''dataset/train/sfondo/b.json'', ''dataset/train/sfondo/a.json'',
      ''dataset/train/tap/c.json'', ''dataset/train/tap/d.json'']"
    by code_simp
  from a b have "data_files (fst (HandGestureDataset small_fs DATA_DIR)) \<noteq>
      data_files (fst (HandGestureDataset reordered_fs DATA_DIR))"
    by simp
  then have n: "HandGestureDataset small_fs DATA_DIR \<noteq> HandGestureDataset reordered_fs DATA_DIR"
    by auto
  from f d a b n show ?thesis by - (intro conjI; assumption)
qed

text \<open>
  Claim C9, amended. The entry sequence of the dataset index is determined by the order in
  which the two class subdirectories are enumerated: first the \<^verbatim>\<open>.json\<close> files of
  \<^verbatim>\<open>sfondo\<close> with label 0, then those of \<^verbatim>\<open>tap\<close> with label 1, each in enumeration
  order. Two constructions over class directories that hold the same names build indices
  with the same files in each class, the same label sequence and the same output; the order
  of the files within a class is the order of each enumeration, and the two indices are
  equal when the two enumerations are.
\<close>

theorem dataset_entries_determined:
  assumes "map_option mset (dirs fs (path_join data_dir ''sfondo'')) =
           map_option mset (dirs fs' (path_join data_dir ''sfondo''))"
    and "map_option mset (dirs fs (path_join data_dir ''tap'')) =
         map_option mset (dirs fs' (path_join data_dir ''tap''))"
  shows "data_files (fst (HandGestureDataset fs data_dir)) =
      class_files fs data_dir ''sfondo'' @ class_files fs data_dir ''tap'' \<and>
    data_files (fst (HandGestureDataset fs' data_dir)) =
      class_files fs' data_dir ''sfondo'' @ class_files fs' data_dir ''tap'' \<and>
    mset (class_files fs data_dir ''sfondo'') = mset (class_files fs' data_dir ''sfondo'') \<and>
    mset (class_files fs data_dir ''tap'') = mset (class_files fs' data_dir ''tap'') \<and>
    labels (fst (HandGestureDataset fs data_dir)) =
      replicate (json_count fs data_dir ''sfondo'') 0 @ replicate (json_count fs data_dir ''tap'') 1 \<and>
    labels (fst (HandGestureDataset fs' data_dir)) = labels (fst (HandGestureDataset fs data_dir)) \<and>
    snd (HandGestureDataset fs' data_dir) = snd (HandGestureDataset fs data_dir) \<and>
    (dirs fs (path_join data_dir ''sfondo'') = dirs fs' (path_join data_dir ''sfondo'') \<and>
     dirs fs (path_join data_dir ''tap'') = dirs fs' (path_join data_dir ''tap'') \<longrightarrow>
     HandGestureDataset fs' data_dir = HandGestureDataset fs data_dir)"
proof -
  have "labels (fst (HandGestureDataset fs' data_dir)) = labels (fst (HandGestureDataset fs data_dir))"
    by (simp add: HandGestureDataset_labels json_count_same_names [OF assms(1)]
        json_count_same_names [OF assms(2)])
  moreover have "snd (HandGestureDataset fs' data_dir) = snd (HandGestureDataset fs data_dir)"
    by (simp add: HandGestureDataset_output missing_same_names [OF assms(1)]
        missing_same_names [OF assms(2)])
  moreover have "dirs fs (path_join data_dir ''sfondo'') = dirs fs' (path_join data_dir ''sfondo'') \<and>
     dirs fs (path_join data_dir ''tap'') = dirs fs' (path_join data_dir ''tap'') \<longrightarrow>
     HandGestureDataset fs' data_dir = HandGestureDataset fs data_dir"
    by (simp add: HandGestureDataset_def label_map_def scan_class_def)
  moreover note HandGestureDataset_data_files [of fs data_dir]
    HandGestureDataset_data_files [of fs' data_dir]
    HandGestureDataset_labels [of fs data_dir]
    mset_class_files [OF assms(1)] mset_class_files [OF assms(2)]
  ultimately show ?thesis by - (intro conjI; assumption)
qed

theorem dataset_entries_determined_witness:
  "map_option mset (dirs small_fs (path_join DATA_DIR ''sfondo'')) =
     map_option mset (dirs reordered_fs (path_join DATA_DIR ''sfondo'')) \<and>
   map_option mset (dirs small_fs (path_join DATA_DIR ''tap'')) =
     map_option mset (dirs reordered_fs (path_join DATA_DIR ''tap'')) \<and>
   dirs small_fs (path_join DATA_DIR ''sfondo'') \<noteq> dirs reordered_fs (path_join DATA_DIR ''sfondo'') \<and>
   data_files (fst (HandGestureDataset small_fs DATA_DIR)) =
     [''dataset/train/sfondo/a.json'', ''dataset/train/sfondo/b.json'',
      ''dataset/train/tap/c.json'', ''dataset/train/tap/d.json''] \<and>
   data_files (fst (HandGestureDataset reordered_fs DATA_DIR)) =
     [''dataset/train/sfondo/b.json'', ''dataset/train/sfondo/a.json'',
      ''dataset/train/tap/c.json'', ''dataset/train/tap/d.json''] \<and>
   mset (class_files small_fs DATA_DIR ''sfondo'') = mset (class_files reordered_fs DATA_DIR ''sfondo'') \<and>
   labels (fst (HandGestureDataset small_fs DATA_DIR)) = [0, 0, 1, 1] \<and>
   labels (fst (HandGestureDataset reordered_fs DATA_DIR)) = [0, 0, 1, 1] \<and>
   snd (HandGestureDataset reordered_fs DATA_DIR) = []"
proof -
  have p: "path_join DATA_DIR ''sfondo'' = ''dataset/train/sfondo''"
    "path_join DATA_DIR ''tap'' = ''dataset/train/tap''"
    by code_simp+
  have h: "map_option mset (dirs small_fs (path_join DATA_DIR ''sfondo'')) =
     map_option mset (dirs reordered_fs (path_join DATA_DIR ''sfondo''))"
    "map_option mset (dirs small_fs (path_join DATA_DIR ''tap'')) =
     map_option mset (dirs reordered_fs (path_join DATA_DIR ''tap''))"
    unfolding p by (simp_all add: small_fs_def reordered_fs_def train_dirs_def add_mset_commute)
  have d: "dirs small_fs (path_join DATA_DIR ''sfondo'') \<noteq> dirs reordered_fs (path_join DATA_DIR ''sfondo'')"
    unfolding p by (simp add: small_fs_def reordered_fs_def train_dirs_def)
  have a: "data_files (fst (HandGestureDataset small_fs DATA_DIR)) =
     [''dataset/train/sfondo/a.json'', ''dataset/train/sfondo/b.json'',
      ''dataset/train/tap/c.json'', ''dataset/train/tap/d.json'']"
    and l: "labels (fst (HandGestureDataset small_fs DATA_DIR)) = [0, 0, 1, 1]"
    and o: "snd (HandGestureDataset small_fs DATA_DIR) = []"
    by (simp_all add: small_dataset small_ds_def)
  have b: "data_files (fst (HandGestureDataset reordered_fs DATA_DIR)) =
     [''dataset/train/sfondo/b.json'', ''dataset/train/sfondo/a.json'',
      ''dataset/train/tap/c.json'', ''dataset/train/tap/d.json'']"
    by code_simp
  note t = dataset_entries_determined [OF h]
  from t have m: "mset (class_files small_fs DATA_DIR ''sfondo'') =
      mset (class_files reordered_fs DATA_DIR ''sfondo'')"
    by blast
  from t l have l': "labels (fst (HandGestureDataset reordered_fs DATA_DIR)) = [0, 0, 1, 1]"
    by simp
  from t o have o': "snd (HandGestureDataset reordered_fs DATA_DIR) = []"
    by simp
  from h d a b m l l' o' show ?thesis by - (intro conjI; assumption)
qed

section \<open>The sample loader\<close>

lemma py_getitem_in_range:
  "0 \<le> i \<Longrightarrow> i < int (length xs) \<Longrightarrow> py_getitem xs i = Inr (xs ! nat i)"
  by (simp add: py_getitem_def)


lemma getitem_wrong_shape:
  assumes "0 \<le> idx" and "idx < int (len ds)"
    and "files fs (data_files ds ! nat idx) = Some (Parsed data)"
    and "feature_rows data = Inr rows"
    and "np_array rows = Inr features"
    and "shape features \<noteq> [NUM_FEATURES, WINDOW_SIZE]"
  shows "getitem fs ds idx =
           Option.bind (getitem fs ds ((idx + 1) mod int (len ds)))
             (\<lambda>r. Some (WrongShape (data_files ds ! nat idx) (shape features) # fst r, snd r))"
proof -
  from assms(1,2) have "len ds \<noteq> 0" by auto
  with assms show ?thesis
    by (subst getitem.simps) (simp add: py_getitem_in_range len_def)
qed

subsection \<open>A dataset of defective samples only\<close>

lemma getitem_returns_not_all_wrong:
  assumes "getitem fs ds idx = Some y"
  shows "\<not> (list_all (wrong_shape fs) (data_files ds) \<and> 0 \<le> idx \<and> idx < int (len ds))"
proof (rule getitem.raw_induct
    [where P = "\<lambda>fs ds idx y.
       \<not> (list_all (wrong_shape fs) (data_files ds) \<and> 0 \<le> idx \<and> idx < int (len ds))",
     OF _ assms], goal_cases)
  case (1 call fs ds idx y)
  note IH = 1(1) and body = 1(2)
  show ?case
  proof
    assume h: "list_all (wrong_shape fs) (data_files ds) \<and> 0 \<le> idx \<and> idx < int (len ds)"
    then have "nat idx < length (data_files ds)" by (simp add: len_def nat_less_iff)
    with h have ws: "wrong_shape fs (data_files ds ! nat idx)" by (simp add: list_all_length)
    from h have n: "len ds \<noteq> 0" by auto
    from h have nxt: "0 \<le> (idx + 1) mod int (len ds)" "(idx + 1) mod int (len ds) < int (len ds)"
      by auto
    from ws obtain data rows features where
      "files fs (data_files ds ! nat idx) = Some (Parsed data)"
      "feature_rows data = Inr rows" "np_array rows = Inr features"
      "shape features \<noteq> [NUM_FEATURES, WINDOW_SIZE]"
      by (auto simp add: wrong_shape_def split: option.splits file_content.splits sum.splits)
    with body h n obtain r where "call fs ds ((idx + 1) mod int (len ds)) = Some r"
      by (auto simp add: py_getitem_in_range len_def split: Option.bind_splits)
    from IH[OF this] h nxt show False by simp
  qed
qed

lemma getitem_never_returns:
  assumes "list_all (wrong_shape fs) (data_files ds)"
    and "0 \<le> idx" and "idx < int (len ds)"
  shows "getitem fs ds idx = None"
  using assms getitem_returns_not_all_wrong [of fs ds idx] by (cases "getitem fs ds idx") auto

text \<open>
  With a sample that is not defective somewhere in the index, the recursion ends: the call
  returns a pair or raises.
\<close>

lemma getitem_returns_directly:
  assumes "\<not> wrong_shape fs (data_files ds ! nat idx)" and "0 \<le> idx" and "idx < int (len ds)"
  shows "getitem fs ds idx \<noteq> None"
proof -
  from assms(2,3) have p: "py_getitem (data_files ds) idx = Inr (data_files ds ! nat idx)"
    by (simp add: py_getitem_in_range len_def)
  show ?thesis
  proof (cases "files fs (data_files ds ! nat idx)")
    case None
    with p show ?thesis by (subst getitem.simps) simp
  next
    case (Some content)
    show ?thesis
    proof (cases content)
      case Undecodable
      with p Some show ?thesis by (subst getitem.simps) simp
    next
      case Malformed
      with p Some show ?thesis by (subst getitem.simps) simp
    next
      case TooDeep
      with p Some show ?thesis by (subst getitem.simps) simp
    next
      case (Parsed data)
      show ?thesis
      proof (cases "feature_rows data")
        case (Inl e)
        with p Some Parsed show ?thesis by (subst getitem.simps) simp
      next
        case rows: (Inr rows)
        show ?thesis
        proof (cases "np_array rows")
          case (Inl e)
          with p Some Parsed rows show ?thesis by (subst getitem.simps) simp
        next
          case (Inr features)
          with assms(1) Some Parsed rows have "shape features = [NUM_FEATURES, WINDOW_SIZE]"
            by (simp add: wrong_shape_def)
          with p Some Parsed rows Inr show ?thesis
            by (subst getitem.simps) (simp split: sum.splits)
        qed
      qed
    qed
  qed
qed

lemma getitem_returns_within:
  assumes "0 \<le> idx" and "idx < int (len ds)"
    and "\<not> wrong_shape fs (data_files ds ! nat ((idx + int k) mod int (len ds)))"
  shows "getitem fs ds idx \<noteq> None"
  using assms
proof (induction k arbitrary: idx)
  case 0
  then show ?case by (intro getitem_returns_directly) simp_all
next
  case (Suc k)
  show ?case
  proof (cases "wrong_shape fs (data_files ds ! nat idx)")
    case False
    with Suc.prems show ?thesis by (intro getitem_returns_directly) simp_all
  next
    case True
    then obtain data rows features where w:
      "files fs (data_files ds ! nat idx) = Some (Parsed data)"
      "feature_rows data = Inr rows" "np_array rows = Inr features"
      "shape features \<noteq> [NUM_FEATURES, WINDOW_SIZE]"
      by (auto simp add: wrong_shape_def split: option.splits file_content.splits sum.splits)
    let ?next = "(idx + 1) mod int (len ds)"
    from Suc.prems have n: "0 \<le> ?next" "?next < int (len ds)" by auto
    have "(?next + int k) mod int (len ds) = (idx + 1 + int k) mod int (len ds)"
      by (rule mod_add_left_eq)
    also have "idx + 1 + int k = idx + int (Suc k)" by simp
    finally have "(?next + int k) mod int (len ds) = (idx + int (Suc k)) mod int (len ds)" .
    with Suc.prems(3) have "\<not> wrong_shape fs (data_files ds ! nat ((?next + int k) mod int (len ds)))"
      by simp
    from Suc.IH [OF n this] obtain r where "getitem fs ds ?next = Some r" by auto
    with getitem_wrong_shape [OF Suc.prems(1,2) w] show ?thesis by simp
  qed
qed

lemma getitem_returns:
  assumes "0 \<le> idx" and "idx < int (len ds)" and "\<not> list_all (wrong_shape fs) (data_files ds)"
  shows "getitem fs ds idx \<noteq> None"
proof -
  from assms(3) obtain i where i: "i < len ds" "\<not> wrong_shape fs (data_files ds ! i)"
    by (auto simp add: list_all_length len_def)
  let ?k = "nat ((int i - idx) mod int (len ds))"
  from assms(1,2) i(1) have "(idx + int ?k) mod int (len ds) = int i"
    by (simp add: mod_add_right_eq)
  with i(2) have "\<not> wrong_shape fs (data_files ds ! nat ((idx + int ?k) mod int (len ds)))"
    by simp
  from getitem_returns_within [OF assms(1,2) this] show ?thesis .
qed

lemma getitem_returns_iff:
  assumes "0 \<le> idx" and "idx < int (len ds)"
  shows "(getitem fs ds idx = None) = list_all (wrong_shape fs) (data_files ds)"
  using assms getitem_never_returns [of fs ds idx] getitem_returns [of idx ds fs] by blast

subsection \<open>The feature matrix of a window of frame records\<close>

lemma frame_record_item_get:
  "frame_record item \<Longrightarrow> key \<in> set signal_keys \<Longrightarrow>
   item_get item key = Inr (JNum (signal_value key item))"
  by (cases item) (auto simp add: list_all_iff split: option.splits json.splits)

lemma frame_record_signal:
  "frame_record item \<Longrightarrow> key \<in> set signal_keys \<Longrightarrow>
   (case map_of (object_items item) key of
      None \<Rightarrow> signal_value key item = Fin 0
    | Some v \<Rightarrow> v = JNum (signal_value key item))"
  by (cases item) (auto simp add: list_all_iff split: option.splits json.splits)

lemma comprehension_signals:
  "list_all frame_record items \<Longrightarrow> key \<in> set signal_keys \<Longrightarrow>
   comprehension key items = Inr (map JNum (map (signal_value key) items))"
  by (induction items) (simp_all add: frame_record_item_get)

lemma feature_rows_frames:
  assumes "list_all frame_record frames"
  shows "feature_rows (JArr frames) =
     Inr (JArr [JArr (map JNum (map (signal_value ''relativeYVelocity'') frames)),
                JArr (map JNum (map (signal_value ''relativeYAcceleration'') frames)),
                JArr (map JNum (map (signal_value ''stabilityRatio'') frames))])"
  using assms by (simp add: feature_rows_def comprehension_signals signal_keys_def del: map_map)

lemma dims_numbers: "dims (JArr (map JNum xs)) = Some [length xs]"
  by (cases xs) (simp_all add: list_all_iff)

lemma leaves_numbers: "leaves (JArr (map JNum xs)) = map JNum xs"
  by (induction xs) simp_all

lemma convert_all_numbers: "convert_all (map JNum xs) = Inr xs"
  by (induction xs) simp_all

lemma np_array_rows:
  assumes "length a = length v" and "length r = length v"
  shows "np_array (JArr [JArr (map JNum v), JArr (map JNum a), JArr (map JNum r)]) =
           Inr \<lparr>shape = [3, length v], cells = v @ a @ r\<rparr>"
proof -
  have "dims (JArr [JArr (map JNum v), JArr (map JNum a), JArr (map JNum r)]) = Some [3, length v]"
    using assms by (subst dims.simps(1)) (simp add: dims_numbers del: dims.simps(1))
  moreover have "leaves (JArr [JArr (map JNum v), JArr (map JNum a), JArr (map JNum r)]) =
      map JNum (v @ a @ r)"
    by (subst leaves.simps(1)) (simp add: leaves_numbers del: leaves.simps(1))
  ultimately show ?thesis
    by (simp add: np_array_def convert_all_numbers del: dims.simps leaves.simps map_append)
qed

lemma getitem_frames:
  assumes "0 \<le> idx" and "idx < int (len ds)" and "length (labels ds) = len ds"
    and "files fs (data_files ds ! nat idx) = Some (Parsed (JArr frames))"
    and "length frames = WINDOW_SIZE" and "list_all frame_record frames"
  shows "getitem fs ds idx =
     Some ([], Inr (\<lparr>shape = [NUM_FEATURES, WINDOW_SIZE],
                     cells = map (signal_value ''relativeYVelocity'') frames @
                             map (signal_value ''relativeYAcceleration'') frames @
                             map (signal_value ''stabilityRatio'') frames\<rparr>,
                    labels ds ! nat idx))"
proof -
  have "np_array (JArr [JArr (map JNum (map (signal_value ''relativeYVelocity'') frames)),
                JArr (map JNum (map (signal_value ''relativeYAcceleration'') frames)),
                JArr (map JNum (map (signal_value ''stabilityRatio'') frames))]) =
        Inr \<lparr>shape = [NUM_FEATURES, WINDOW_SIZE],
                     cells = map (signal_value ''relativeYVelocity'') frames @
                             map (signal_value ''relativeYAcceleration'') frames @
                             map (signal_value ''stabilityRatio'') frames\<rparr>"
    using assms(5) by (subst np_array_rows) (simp_all add: NUM_FEATURES_def)
  with assms show ?thesis
    by (subst getitem.simps)
       (simp add: py_getitem_in_range len_def feature_rows_frames del: map_map)
qed

lemma cells_index:
  assumes "length v = n" and "length a = n" and "length r = n" and "c < 3" and "j < n"
  shows "(v @ a @ r) ! (c * n + j) = [v, a, r] ! c ! j"
proof -
  from assms(4) consider "c = 0" | "c = 1" | "c = 2" by linarith
  then show ?thesis using assms by cases (simp_all add: nth_append)
qed

lemma window_frames:
  "window = JArr (JObj [] #
           replicate 24 (JObj [(''relativeYVelocity'', JNum (Fin 1)),
                               (''stabilityRatio'', JNum (Fin 2)),
                               (''timestamp'', JStr ''t'')]))"
  "length (JObj [] #
           replicate 24 (JObj [(''relativeYVelocity'', JNum (Fin 1)),
                               (''stabilityRatio'', JNum (Fin 2)),
                               (''timestamp'', JStr ''t'')])) = WINDOW_SIZE"
  "list_all frame_record (JObj [] #
           replicate 24 (JObj [(''relativeYVelocity'', JNum (Fin 1)),
                               (''stabilityRatio'', JNum (Fin 2)),
                               (''timestamp'', JStr ''t'')]))"
  by (simp_all add: window_def WINDOW_SIZE_def signal_keys_def list_all_iff)





text \<open>
  Claim C6. For every index \<open>0 \<le> idx < size()\<close> of a dataset with one label per file,
  whose file is a JSON array of exactly \<open>window_length\<close> frame records, \<^verbatim>\<open>__getitem__\<close>
  returns without printing: the feature matrix has shape \<open>(3, window_length)\<close>, its row
  \<open>c\<close> holds the signal \<open>signal_keys ! c\<close> (velocity, acceleration, stability ratio) of
  the frames in order, a cell is 0.0 where the frame record has no such key and the number
  of the record otherwise, and the label is the label of the entry.
\<close>

theorem getitem_valid_window:
  assumes "0 \<le> idx" and "idx < int (len ds)" and "length (labels ds) = len ds"
    and "files fs (data_files ds ! nat idx) = Some (Parsed (JArr frames))"
    and "length frames = WINDOW_SIZE" and "list_all frame_record frames"
  shows "\<exists>features.
     getitem fs ds idx = Some ([], Inr (features, labels ds ! nat idx)) \<and>
     shape features = [NUM_FEATURES, WINDOW_SIZE] \<and>
     length (cells features) = NUM_FEATURES * WINDOW_SIZE \<and>
     (\<forall>c<NUM_FEATURES. \<forall>j<WINDOW_SIZE.
        case map_of (object_items (frames ! j)) (signal_keys ! c) of
          None \<Rightarrow> cells features ! (c * WINDOW_SIZE + j) = Fin 0
        | Some v \<Rightarrow> v = JNum (cells features ! (c * WINDOW_SIZE + j)))"
proof -
  let ?v = "map (signal_value ''relativeYVelocity'') frames"
  let ?a = "map (signal_value ''relativeYAcceleration'') frames"
  let ?r = "map (signal_value ''stabilityRatio'') frames"
  let ?features = "\<lparr>shape = [NUM_FEATURES, WINDOW_SIZE], cells = ?v @ ?a @ ?r\<rparr>"
  have cell: "case map_of (object_items (frames ! j)) (signal_keys ! c) of
          None \<Rightarrow> cells ?features ! (c * WINDOW_SIZE + j) = Fin 0
        | Some v \<Rightarrow> v = JNum (cells ?features ! (c * WINDOW_SIZE + j))"
    if "c < NUM_FEATURES" and "j < WINDOW_SIZE" for c j
  proof -
    from that have c: "c < 3" by (simp add: NUM_FEATURES_def)
    from that assms(5) have j: "j < length frames" by simp
    from c have key: "signal_keys ! c \<in> set signal_keys"
      by (intro nth_mem) (simp add: signal_keys_def)
    from j assms(6) have fr: "frame_record (frames ! j)" by (simp add: list_all_length)
    have "(?v @ ?a @ ?r) ! (c * WINDOW_SIZE + j) = [?v, ?a, ?r] ! c ! j"
      using assms(5) c that(2) by (intro cells_index) simp_all
    also have "\<dots> = signal_value (signal_keys ! c) (frames ! j)"
    proof -
      from c consider "c = 0" | "c = 1" | "c = 2" by linarith
      then show ?thesis using j by cases (simp_all add: signal_keys_def)
    qed
    finally have "cells ?features ! (c * WINDOW_SIZE + j) =
        signal_value (signal_keys ! c) (frames ! j)"
      by simp
    with frame_record_signal [OF fr key] show ?thesis by (simp split: option.splits)
  qed
  have "getitem fs ds idx = Some ([], Inr (?features, labels ds ! nat idx))"
    by (rule getitem_frames [OF assms])
  moreover have "shape ?features = [NUM_FEATURES, WINDOW_SIZE]" by simp
  moreover have "length (cells ?features) = NUM_FEATURES * WINDOW_SIZE"
    using assms(5) by (simp add: NUM_FEATURES_def)
  ultimately show ?thesis using cell by blast
qed

theorem getitem_valid_window_witness:
  "(0::int) \<le> 0 \<and> 0 < int (len small_ds) \<and> length (labels small_ds) = len small_ds \<and>
   files small_fs (data_files small_ds ! nat 0) = Some (Parsed window) \<and>
   (\<exists>features.
     getitem small_fs small_ds 0 = Some ([], Inr (features, 0)) \<and>
     shape features = [3, 25] \<and>
     cells features ! (0 * 25 + 0) = Fin 0 \<and>
     cells features ! (0 * 25 + 1) = Fin 1 \<and>
     cells features ! (1 * 25 + 1) = Fin 0 \<and>
     cells features ! (2 * 25 + 1) = Fin 2)"
proof -
  let ?frames = "JObj [] #
           replicate 24 (JObj [(''relativeYVelocity'', JNum (Fin 1)),
                               (''stabilityRatio'', JNum (Fin 2)),
                               (''timestamp'', JStr ''t'')])"
  have h: "(0::int) \<le> 0" "0 < int (len small_ds)" "length (labels small_ds) = len small_ds"
    "files small_fs (data_files small_ds ! nat 0) = Some (Parsed (JArr ?frames))"
    by (simp_all add: small_ds_def small_fs_def train_files_def len_def window_frames(1))
  from getitem_valid_window [OF h window_frames(2,3)] obtain features where
    g: "getitem small_fs small_ds 0 = Some ([], Inr (features, labels small_ds ! nat 0))"
    and s: "shape features = [NUM_FEATURES, WINDOW_SIZE]"
    and c: "\<And>c j. c < NUM_FEATURES \<Longrightarrow> j < WINDOW_SIZE \<Longrightarrow>
        (case map_of (object_items (?frames ! j)) (signal_keys ! c) of
          None \<Rightarrow> cells features ! (c * WINDOW_SIZE + j) = Fin 0
        | Some v \<Rightarrow> v = JNum (cells features ! (c * WINDOW_SIZE + j)))"
    by blast
  have "cells features ! (0 * 25 + 0) = Fin 0"
    using c [of 0 0] by (simp add: NUM_FEATURES_def WINDOW_SIZE_def signal_keys_def)
  moreover have "cells features ! (0 * 25 + 1) = Fin 1"
    using c [of 0 1] by (simp add: NUM_FEATURES_def WINDOW_SIZE_def signal_keys_def)
  moreover have "cells features ! (1 * 25 + 1) = Fin 0"
    using c [of 1 1] by (simp add: NUM_FEATURES_def WINDOW_SIZE_def signal_keys_def)
  moreover have "cells features ! (2 * 25 + 1) = Fin 2"
    using c [of 2 1] by (simp add: NUM_FEATURES_def WINDOW_SIZE_def signal_keys_def)
  moreover have "labels small_ds ! nat 0 = 0" by (simp add: small_ds_def)
  ultimately show ?thesis
    using g s h by (auto simp add: NUM_FEATURES_def WINDOW_SIZE_def window_frames(1))
qed

text \<open>
  Claim C1. For every index \<open>0 \<le> idx < size()\<close> whose file parses as JSON and whose
  assembled feature matrix does not have shape \<open>(3, window_length)\<close>, \<^verbatim>\<open>__getitem__\<close>
  prints the warning for the file and then is the call for index \<open>(idx + 1) mod size()\<close>:
  it returns what that call returns, or does not return if that call does not; from the
  last index the next index is 0.
\<close>

theorem getitem_wrong_shape_next:
  assumes "0 \<le> idx" and "idx < int (len ds)"
    and "files fs (data_files ds ! nat idx) = Some (Parsed data)"
    and "feature_rows data = Inr rows"
    and "np_array rows = Inr features"
    and "shape features \<noteq> [NUM_FEATURES, WINDOW_SIZE]"
  shows "map_option snd (getitem fs ds idx) =
           map_option snd (getitem fs ds ((idx + 1) mod int (len ds))) \<and>
         map_option fst (getitem fs ds idx) =
           map_option (\<lambda>r. WrongShape (data_files ds ! nat idx) (shape features) # fst r)
             (getitem fs ds ((idx + 1) mod int (len ds))) \<and>
         (if idx = int (len ds) - 1 then (idx + 1) mod int (len ds) = 0
          else (idx + 1) mod int (len ds) = idx + 1)"
proof -
  have "getitem fs ds idx =
      Option.bind (getitem fs ds ((idx + 1) mod int (len ds)))
        (\<lambda>r. Some (WrongShape (data_files ds ! nat idx) (shape features) # fst r, snd r))"
    by (rule getitem_wrong_shape [OF assms])
  then have "map_option snd (getitem fs ds idx) =
           map_option snd (getitem fs ds ((idx + 1) mod int (len ds)))"
    and "map_option fst (getitem fs ds idx) =
           map_option (\<lambda>r. WrongShape (data_files ds ! nat idx) (shape features) # fst r)
             (getitem fs ds ((idx + 1) mod int (len ds)))"
    by (cases "getitem fs ds ((idx + 1) mod int (len ds))"; simp)+
  moreover from assms(1,2)
  have "if idx = int (len ds) - 1 then (idx + 1) mod int (len ds) = 0
        else (idx + 1) mod int (len ds) = idx + 1"
    by simp
  ultimately show ?thesis by blast
qed

theorem getitem_wrong_shape_next_witness:
  "(0::int) \<le> 3 \<and> 3 < int (len small_ds) \<and>
   files small_fs (data_files small_ds ! nat 3) = Some (Parsed (JArr [])) \<and>
   feature_rows (JArr []) = Inr (JArr [JArr [], JArr [], JArr []]) \<and>
   np_array (JArr [JArr [], JArr [], JArr []]) = Inr \<lparr>shape = [3, 0], cells = []\<rparr> \<and>
   shape \<lparr>shape = [3, 0], cells = []\<rparr> \<noteq> [NUM_FEATURES, WINDOW_SIZE] \<and>
   map_option snd (getitem small_fs small_ds 3) = map_option snd (getitem small_fs small_ds 0) \<and>
   map_option fst (getitem small_fs small_ds 3) =
     Some [WrongShape ''dataset/train/tap/d.json'' [3, 0]] \<and>
   labels small_ds ! 3 = 1 \<and>
   map_option (\<lambda>r. map_sum id snd (snd r)) (getitem small_fs small_ds 3) = Some (Inr 0)"
proof -
  have h: "(0::int) \<le> 3" "3 < int (len small_ds)"
    "files small_fs (data_files small_ds ! nat 3) = Some (Parsed (JArr []))"
    "feature_rows (JArr []) = Inr (JArr [JArr [], JArr [], JArr []])"
    "np_array (JArr [JArr [], JArr [], JArr []]) = Inr \<lparr>shape = [3, 0], cells = []\<rparr>"
    "shape \<lparr>shape = [3, 0], cells = []\<rparr> \<noteq> [NUM_FEATURES, WINDOW_SIZE]"
    by (simp_all add: small_ds_def small_fs_def train_files_def len_def feature_rows_def
        np_array_def WINDOW_SIZE_def)
  have n: "(3 + 1) mod int (len small_ds) = 0" "data_files small_ds ! nat 3 = ''dataset/train/tap/d.json''"
    "labels small_ds ! 3 = 1"
    by (simp_all add: small_ds_def len_def)
  have g: "getitem small_fs small_ds 0 = Some ([], the (map_option snd (getitem small_fs small_ds 0)))"
    "map_option (\<lambda>r. map_sum id snd (snd r)) (getitem small_fs small_ds 0) = Some (Inr 0)"
    by code_simp+
  from getitem_wrong_shape_next [OF h] n
  have a: "map_option snd (getitem small_fs small_ds 3) = map_option snd (getitem small_fs small_ds 0)"
    and b: "map_option fst (getitem small_fs small_ds 3) =
      map_option (\<lambda>r. WrongShape ''dataset/train/tap/d.json'' [3, 0] # fst r)
        (getitem small_fs small_ds 0)"
    by simp_all
  from b g(1) have b': "map_option fst (getitem small_fs small_ds 3) =
     Some [WrongShape ''dataset/train/tap/d.json'' [3, 0]]"
    by (cases "getitem small_fs small_ds 0") auto
  from a g(2) have c: "map_option (\<lambda>r. map_sum id snd (snd r)) (getitem small_fs small_ds 3) = Some (Inr 0)"
    by (cases "getitem small_fs small_ds 0"; cases "getitem small_fs small_ds 3") auto
  from h a b' c n(3) show ?thesis by - (intro conjI; assumption)
qed

text \<open>
  Claim C2, at the input on which the program does not do what the claim says. The
  training directory holds one sample, the array \<open>[]\<close>: valid JSON, with a feature matrix
  of shape \<open>(3, 0)\<close>. The index built from the directory has size 1, index 0 is defective,
  and the next index is 0 again: \<^verbatim>\<open>__getitem__(0)\<close> returns no value (the interpreter ends
  the recursion with a \<^verbatim>\<open>RecursionError\<close>, which leaves \<^verbatim>\<open>__getitem__\<close>).
\<close>

theorem getitem_only_defective_samples:
  "fst (HandGestureDataset defective_fs DATA_DIR) = defective_ds \<and>
   len defective_ds = 1 \<and>
   wrong_shape defective_fs (data_files defective_ds ! 0) \<and>
   getitem defective_fs (fst (HandGestureDataset defective_fs DATA_DIR)) 0 = None"
proof -
  have w: "list_all (wrong_shape defective_fs) (data_files defective_ds)"
    by (simp add: defective_ds_def defective_fs_def wrong_shape_def feature_rows_def
        np_array_def WINDOW_SIZE_def)
  have l: "len defective_ds = 1" by (simp add: len_def defective_ds_def)
  from w have "wrong_shape defective_fs (data_files defective_ds ! 0)"
    by (simp add: defective_ds_def)
  moreover from w l have "getitem defective_fs defective_ds 0 = None"
    by (intro getitem_never_returns) simp_all
  ultimately show ?thesis using l by (simp add: defective_dataset)
qed

section \<open>The batch assembler\<close>

lemma batch_sampler_length_drop:
  "0 < b \<Longrightarrow> length (batch_sampler b True xs) = length xs div b"
proof (induction b "True" xs rule: batch_sampler.induct)
  case (1 b xs)
  show ?case
  proof (cases "xs = [] \<or> length xs < b")
    case True
    then show ?thesis using 1(2) by (subst batch_sampler.simps) auto
  next
    case False
    then have "length (batch_sampler b True (drop b xs)) = length (drop b xs) div b"
      using 1 by simp
    with False 1(2) show ?thesis
      by (subst batch_sampler.simps) (simp add: le_div_geq)
  qed
qed

lemma batch_sampler_full_batches:
  "list_all (\<lambda>batch. length batch = b) (batch_sampler b True xs)"
proof (induction b "True" xs rule: batch_sampler.induct)
  case (1 b xs)
  show ?case
  proof (cases "b = 0 \<or> xs = [] \<or> length xs < b")
    case True
    then show ?thesis by (subst batch_sampler.simps) auto
  next
    case False
    with 1 have "list_all (\<lambda>batch. length batch = b) (batch_sampler b True (drop b xs))" by simp
    with False show ?thesis by (subst batch_sampler.simps) simp
  qed
qed

lemma batch_sampler_concat_drop:
  "0 < b \<Longrightarrow> concat (batch_sampler b True xs) = take (b * (length xs div b)) xs"
proof (induction b "True" xs rule: batch_sampler.induct)
  case (1 b xs)
  show ?case
  proof (cases "xs = [] \<or> length xs < b")
    case True
    then show ?thesis using 1(2) by (subst batch_sampler.simps) auto
  next
    case False
    then have IH: "concat (batch_sampler b True (drop b xs)) =
        take (b * (length (drop b xs) div b)) (drop b xs)"
      using 1 by simp
    from False have "length xs div b = Suc ((length xs - b) div b)"
      using 1(2) by (simp add: le_div_geq)
    then have "take (b * (length xs div b)) xs =
        take b xs @ take (b * ((length xs - b) div b)) (drop b xs)"
      by (simp add: take_add)
    with False 1(2) IH show ?thesis
      by (subst batch_sampler.simps) simp
  qed
qed

lemma batch_sampler_concat_keep:
  "0 < b \<Longrightarrow> concat (batch_sampler b False xs) = xs"
proof (induction b "False" xs rule: batch_sampler.induct)
  case (1 b xs)
  show ?case
  proof (cases "xs = [] \<or> length xs < b")
    case True
    then show ?thesis using 1(2) by (subst batch_sampler.simps) auto
  next
    case False
    with 1 have "concat (batch_sampler b False (drop b xs)) = drop b xs" by simp
    with False 1(2) show ?thesis by (subst batch_sampler.simps) simp
  qed
qed

lemma batch_sampler_short: "length xs < b \<Longrightarrow> batch_sampler b True xs = []"
  by (subst batch_sampler.simps) simp

lemma length_sampler: "length (sampler shuffle keys n) = n"
  by (simp add: sampler_def)

text \<open>
  Claim C8. For every dataset size \<open>n\<close>, batch size \<open>b > 0\<close> and random keys, one epoch with
  shuffling and drop-remainder on has exactly \<open>n div b\<close> batches, each of \<open>b\<close> indices; they
  are the first \<open>b * (n div b)\<close> indices of the order of the epoch, which visits each of
  \<open>0..n-1\<close> once, so that \<open>n mod b\<close> samples are dropped. With \<open>n = 5\<close> and \<open>b = 2\<close> there are
  2 batches of 4 samples in all. Without shuffling and with drop-remainder off, the batches
  put end to end are \<open>0, ..., n-1\<close>: every index is fetched exactly once.
\<close>

theorem batch_counts:
  assumes "0 < b"
  shows "length (batch_sampler b True (sampler True keys n)) = n div b \<and>
    list_all (\<lambda>batch. length batch = b) (batch_sampler b True (sampler True keys n)) \<and>
    concat (batch_sampler b True (sampler True keys n)) =
      take (b * (n div b)) (sampler True keys n) \<and>
    distinct (sampler True keys n) \<and> set (sampler True keys n) = {0..<n} \<and>
    length (batch_sampler 2 True (sampler True keys 5)) = 2 \<and>
    length (concat (batch_sampler 2 True (sampler True keys 5))) = 4 \<and>
    concat (batch_sampler b False (sampler False keys n)) = [0..<n]"
proof -
  have "length (batch_sampler b True (sampler True keys n)) = n div b"
    using assms by (simp add: batch_sampler_length_drop length_sampler)
  moreover have "concat (batch_sampler b True (sampler True keys n)) =
      take (b * (n div b)) (sampler True keys n)"
    using assms by (simp add: batch_sampler_concat_drop length_sampler)
  moreover have "distinct (sampler True keys n)" "set (sampler True keys n) = {0..<n}"
    by (simp_all add: sampler_def)
  moreover have "length (batch_sampler 2 True (sampler True keys 5)) = 2"
    by (simp add: batch_sampler_length_drop length_sampler)
  moreover have "length (concat (batch_sampler 2 True (sampler True keys 5))) = 4"
    by (simp add: batch_sampler_concat_drop length_sampler)
  moreover have "concat (batch_sampler b False (sampler False keys n)) = [0..<n]"
    using assms by (simp add: batch_sampler_concat_keep) (simp add: sampler_def)
  ultimately show ?thesis
    using batch_sampler_full_batches [of b "sampler True keys n"] by blast
qed

theorem batch_counts_witness:
  "(0::nat) < 2 \<and>
   batch_sampler 2 True (sampler True (\<lambda>i. 10 - i) 5) = [[4, 3], [2, 1]] \<and>
   length (batch_sampler 2 True (sampler True (\<lambda>i. 10 - i) 5)) = 5 div 2 \<and>
   concat (batch_sampler 2 True (sampler True (\<lambda>i. 10 - i) 5)) =
     take (2 * (5 div 2)) (sampler True (\<lambda>i. 10 - i) 5) \<and>
   batch_sampler 2 False (sampler False (\<lambda>i. 10 - i) 5) = [[0, 1], [2, 3], [4]] \<and>
   concat (batch_sampler 2 False (sampler False (\<lambda>i. 10 - i) 5)) = [0..<5]"
proof -
  have h: "(0::nat) < 2" by simp
  have e: "batch_sampler 2 True (sampler True (\<lambda>i. 10 - i) 5) = [[4, 3], [2, 1]]"
    "batch_sampler 2 False (sampler False (\<lambda>i. 10 - i) 5) = [[0, 1], [2, 3], [4]]"
    by code_simp+
  from batch_counts [OF h, of "\<lambda>i. 10 - i" 5]
  have "length (batch_sampler 2 True (sampler True (\<lambda>i. 10 - i) 5)) = 5 div 2"
    and "concat (batch_sampler 2 True (sampler True (\<lambda>i. 10 - i) 5)) =
     take (2 * (5 div 2)) (sampler True (\<lambda>i. 10 - i) 5)"
    and "concat (batch_sampler 2 False (sampler False (\<lambda>i. 10 - i) 5)) = [0..<5]"
    by blast+
  with h e show ?thesis by - (intro conjI; assumption)
qed

section \<open>The evaluation\<close>

lemma fetch_all:
  assumes "\<forall>i\<in>set batch. getitem fs ds (int i) = Some (out i, Inr (s i))"
  shows "fetch fs ds batch = Some (concat (map out batch), Inr (map s batch))"
  using assms by (induction batch) simp_all

text \<open>
  The loop of the evaluation collects, for the indices of the batches in order, the label
  that \<^verbatim>\<open>__getitem__\<close> returns and the class with the greater score.
\<close>

lemma predict_batches_all:
  assumes "\<forall>i\<in>set (concat bs). getitem fs ds (int i) = Some (out i, Inr (s i))"
  shows "\<exists>trace. predict_batches lib fs ds w bs acc =
     Some (trace,
           Inr (fst acc @ map (\<lambda>i. snd (s i)) (concat bs),
                snd acc @ map (\<lambda>i. argmax (forward lib w (fst (s i)))) (concat bs)))"
  using assms
proof (induction bs arbitrary: acc)
  case Nil
  then show ?case by simp
next
  case (Cons b bs)
  from Cons.prems have "fetch fs ds b = Some (concat (map out b), Inr (map s b))"
    by (intro fetch_all) simp
  moreover from Cons.prems obtain trace where
    "predict_batches lib fs ds w bs
       (fst acc @ map snd (map s b),
        snd acc @ map (\<lambda>x. argmax (forward lib w (fst x))) (map s b)) =
     Some (trace,
           Inr ((fst acc @ map snd (map s b)) @ map (\<lambda>i. snd (s i)) (concat bs),
                (snd acc @ map (\<lambda>x. argmax (forward lib w (fst x))) (map s b)) @
                  map (\<lambda>i. argmax (forward lib w (fst (s i)))) (concat bs)))"
    using Cons.IH [of "(fst acc @ map snd (map s b),
        snd acc @ map (\<lambda>x. argmax (forward lib w (fst x))) (map s b))"]
    by auto
  ultimately show ?case by (simp add: comp_def)
qed

lemma predict_every_sample_once:
  assumes "\<forall>i<len ds. getitem fs ds (int i) = Some (out i, Inr (s i))"
  shows "\<exists>trace.
     predict_batches lib fs ds w
       (batch_sampler EVAL_BATCH_SIZE False (sampler False keys (len ds))) ([], []) =
     Some (trace,
           Inr (map (\<lambda>i. snd (s i)) [0..<len ds],
                map (\<lambda>i. argmax (forward lib w (fst (s i)))) [0..<len ds]))"
proof -
  have c: "concat (batch_sampler EVAL_BATCH_SIZE False (sampler False keys (len ds))) = [0..<len ds]"
    by (simp add: batch_sampler_concat_keep EVAL_BATCH_SIZE_def) (simp add: sampler_def)
  with assms have "\<forall>i\<in>set (concat (batch_sampler EVAL_BATCH_SIZE False (sampler False keys (len ds)))).
      getitem fs ds (int i) = Some (out i, Inr (s i))"
    by simp
  from predict_batches_all [OF this, of lib w "([], [])"] c show ?thesis by simp
qed

lemma named_binary: "binary xs \<Longrightarrow> named xs = Inr (map name_of xs)"
  by (induction xs) (auto simp add: binary_def py_getitem_def class_names_def name_of_def)

lemma confusion_matrix_two:
  "confusion_matrix y_true y_pred [a, b] =
     [[pairs y_true y_pred a a, pairs y_true y_pred a b],
      [pairs y_true y_pred b a, pairs y_true y_pred b b]]"
  by (simp add: confusion_matrix_def pairs_def)

lemma pairs_named:
  assumes "binary ts" and "binary ps" and "t = 0 \<or> t = 1" and "p = 0 \<or> p = 1"
  shows "pairs (map name_of ts) (map name_of ps) (name_of t) (name_of p) = pairs ts ps t p"
proof -
  have "\<And>x. x \<in> set (zip ts ps) \<Longrightarrow>
      ((name_of (fst x), name_of (snd x)) = (name_of t, name_of p)) = (x = (t, p))"
  proof -
    fix x assume "x \<in> set (zip ts ps)"
    then have "fst x \<in> set ts \<and> snd x \<in> set ps"
      using set_zip_leftD [of "fst x" "snd x" ts ps] set_zip_rightD [of "fst x" "snd x" ts ps]
      by simp
    then have "fst x \<in> set ts" "snd x \<in> set ps" by simp_all
    with assms have "fst x = 0 \<or> fst x = 1" "snd x = 0 \<or> snd x = 1"
      by (auto simp add: binary_def list_all_iff)
    with assms(3,4) show "((name_of (fst x), name_of (snd x)) = (name_of t, name_of p)) = (x = (t, p))"
      by (auto simp add: name_of_def prod_eq_iff)
  qed
  then show ?thesis
    by (simp add: pairs_def zip_map_map filter_map comp_def split_beta cong: filter_cong)
qed

lemma pairs_card:
  "length y_true = length y_pred \<Longrightarrow>
   pairs y_true y_pred t p = card {i. i < length y_true \<and> y_true ! i = t \<and> y_pred ! i = p}"
  by (auto simp add: pairs_def length_filter_conv_card intro!: arg_cong[where f=card])

lemma pairs_row:
  "length ts = length ps \<Longrightarrow> binary ps \<Longrightarrow>
   pairs ts ps t 0 + pairs ts ps t 1 = count_list ts t"
  by (induction ts ps rule: list_induct2) (auto simp add: pairs_def binary_def)

lemma pairs_column:
  "length ts = length ps \<Longrightarrow> binary ts \<Longrightarrow>
   pairs ts ps 0 p + pairs ts ps 1 p = count_list ps p"
  by (induction ts ps rule: list_induct2) (auto simp add: pairs_def binary_def)

lemma accuracy_score_card:
  "length y_true = length y_pred \<Longrightarrow>
   accuracy_score y_true y_pred =
     of_nat (card {i. i < length y_true \<and> y_pred ! i = y_true ! i}) / of_nat (length y_true)"
  by (auto simp add: accuracy_score_def length_filter_conv_card
      intro!: arg_cong[where f=card] arg_cong[where f="\<lambda>x. of_nat x / _"])

lemma report_binary:
  assumes "length T = length P" and "binary T" and "binary P"
  shows "report T P =
     Inr [AccuracyReport (of_nat (card {i. i < length T \<and> P ! i = T ! i}) / of_nat (length T)),
          ConfusionReport [[pairs T P 0 0, pairs T P 0 1], [pairs T P 1 0, pairs T P 1 1]],
          ClassificationReport (map name_of T) (map name_of P)]"
proof -
  have n: "name_of 0 = ''sfondo''" "name_of 1 = ''tap''" by (simp_all add: name_of_def)
  have "confusion_matrix (map name_of T) (map name_of P) class_names =
      [[pairs T P 0 0, pairs T P 0 1], [pairs T P 1 0, pairs T P 1 1]]"
    unfolding class_names_def n[symmetric] confusion_matrix_two
    using assms by (simp add: pairs_named)
  with assms show ?thesis
    by (simp add: report_def named_binary accuracy_score_card)
qed

lemma report_scenario:
  "report [0, 1, 1, 0] [0, 1, 0, 0] =
     Inr [AccuracyReport (3 / 4), ConfusionReport [[2, 0], [1, 1]],
          ClassificationReport [''sfondo'', ''tap'', ''tap'', ''sfondo'']
            [''sfondo'', ''tap'', ''sfondo'', ''sfondo'']]"
  by (simp add: report_def py_getitem_def class_names_def accuracy_score_def
      confusion_matrix_def)

lemma py_getitem_member: "py_getitem xs i = Inr x \<Longrightarrow> x \<in> set xs"
  by (auto simp add: py_getitem_def split: if_splits intro!: nth_mem)

lemma getitem_label:
  assumes "getitem fs ds idx = Some y"
  shows "\<forall>f l. snd y = Inr (f, l) \<longrightarrow> l = 0 \<or> l \<in> set (labels ds)"
proof (rule getitem.raw_induct
    [where P = "\<lambda>fs ds idx y. \<forall>f l. snd y = Inr (f, l) \<longrightarrow> l = 0 \<or> l \<in> set (labels ds)",
     OF _ assms], goal_cases)
  case (1 call fs ds idx y)
  from 1(2) show ?case
    by (auto split: sum.splits option.splits file_content.splits if_splits Option.bind_splits
        dest: py_getitem_member 1(1))
qed

lemma loaded_label_binary:
  assumes "binary (labels ds)" and "loaded fs ds i = Some s"
  shows "snd s = 0 \<or> snd s = 1"
proof -
  from assms(2) obtain out where "getitem fs ds (int i) = Some (out, Inr s)"
    by (auto simp add: loaded_def split: option.splits sum.splits)
  from getitem_label [OF this] have "snd s = 0 \<or> snd s \<in> set (labels ds)"
    by (cases s) simp
  with assms(1) show ?thesis by (auto simp add: binary_def list_all_iff)
qed

lemma true_labels_binary:
  assumes "binary (labels ds)" and "list_all (\<lambda>i. loaded fs ds i \<noteq> None) [0..<len ds]"
  shows "binary (true_labels fs ds)"
  unfolding binary_def true_labels_def list_all_iff
proof (intro ballI)
  fix l assume "l \<in> set (map (\<lambda>i. snd (the (loaded fs ds i))) [0..<len ds])"
  then obtain i where i: "i < len ds" "l = snd (the (loaded fs ds i))" by auto
  with assms(2) have "loaded fs ds i \<noteq> None" by (simp add: list_all_iff)
  then obtain s where s: "loaded fs ds i = Some s" by (metis not_None_eq)
  from loaded_label_binary [OF assms(1) s] s i show "l = 0 \<or> l = 1" by simp
qed

lemma predictions_binary: "binary (predictions lib w fs ds)"
  by (auto simp add: binary_def predictions_def list_all_iff argmax_def)

lemma predict_loaded:
  assumes "list_all (\<lambda>i. loaded fs ds i \<noteq> None) [0..<len ds]"
  shows "\<exists>trace.
     predict_batches lib fs ds w
       (batch_sampler EVAL_BATCH_SIZE False (sampler False keys (len ds))) ([], []) =
     Some (trace, Inr (true_labels fs ds, predictions lib w fs ds))"
proof -
  have "\<forall>i<len ds. getitem fs ds (int i) =
      Some (fst (the (getitem fs ds (int i))), Inr (the (loaded fs ds i)))"
  proof (intro allI impI)
    fix i assume "i < len ds"
    with assms have "loaded fs ds i \<noteq> None" by (simp add: list_all_iff)
    then show "getitem fs ds (int i) =
      Some (fst (the (getitem fs ds (int i))), Inr (the (loaded fs ds i)))"
      by (auto simp add: loaded_def split: option.splits sum.splits)
  qed
  from predict_every_sample_once [OF this, of lib w keys] show ?thesis
    by (simp add: true_labels_def predictions_def)
qed

lemma evaluate_main_reports:
  fixes lib :: "('w, 'l) torch"
  assumes "0 < len (fst (HandGestureDataset fs TEST_DATA_DIR))"
    and "list_all (\<lambda>i. loaded fs (fst (HandGestureDataset fs TEST_DATA_DIR)) i \<noteq> None)
           [0..<len (fst (HandGestureDataset fs TEST_DATA_DIR))]"
  shows "\<exists>trace lines.
      evaluate_main lib fs w = Some (trace @ lines, Finished ()) \<and>
      report (true_labels fs (fst (HandGestureDataset fs TEST_DATA_DIR)))
        (predictions lib w fs (fst (HandGestureDataset fs TEST_DATA_DIR))) = Inr lines"
proof -
  let ?ds = "fst (HandGestureDataset fs TEST_DATA_DIR)"
  from predict_loaded [OF assms(2), of lib w "\<lambda>i. i"] obtain trace where
    p: "predict_batches lib fs ?ds w
       (batch_sampler EVAL_BATCH_SIZE False (sampler False (\<lambda>i. i) (len ?ds))) ([], []) =
     Some (trace, Inr (true_labels fs ?ds, predictions lib w fs ?ds))"
    by blast
  let ?T = "true_labels fs ?ds" and ?P = "predictions lib w fs ?ds"
  let ?lines = "[AccuracyReport (of_nat (card {i. i < length ?T \<and> ?P ! i = ?T ! i}) / of_nat (length ?T)),
          ConfusionReport [[pairs ?T ?P 0 0, pairs ?T ?P 0 1], [pairs ?T ?P 1 0, pairs ?T ?P 1 1]],
          ClassificationReport (map name_of ?T) (map name_of ?P)] :: ('w, 'l) event list"
  let ?start = "Msg ''Caricamento dati di test...'' # map Log (snd (HandGestureDataset fs TEST_DATA_DIR)) @
     [LoaderCreated EVAL_BATCH_SIZE False False, Msg ''Caricamento modello addestrato...'',
      ModelCreated, WeightsLoaded w, Msg ''Esecuzione delle predizioni sul test set...''] @ trace"
  have "length ?T = length ?P"
    by (simp add: true_labels_def predictions_def)
  moreover have "binary ?T"
    using assms(2) by (intro true_labels_binary HandGestureDataset_labels_binary)
  ultimately have r: "report ?T ?P = Inr ?lines"
    using predictions_binary by (intro report_binary)
  from assms(1) p r have "evaluate_main lib fs w = Some (?start @ ?lines, Finished ())"
    by (simp add: evaluate_main_def Let_def)
  with r show ?thesis by blast
qed

lemma test_dataset: "HandGestureDataset test_fs TEST_DATA_DIR = (test_ds, [])"
  by code_simp

text \<open>
  Claim C5. For every run of the evaluation over a non-empty test index whose samples all
  load, with \<open>T\<close> the labels that \<^verbatim>\<open>__getitem__\<close> returns for the indices \<open>0..size()-1\<close> and
  \<open>P\<close> the class of the greater score for each of them: the script finishes, and it reports
  the accuracy \<open>|{i. P[i] = T[i]}| / size()\<close> and the confusion matrix whose entry in row
  \<open>t\<close> and column \<open>p\<close> is the number of samples of true class \<open>t\<close> predicted as \<open>p\<close>, rows
  and columns in the order sfondo (background), tap. The entries of row \<open>t\<close> add up to the
  number of samples of true class \<open>t\<close>, those of column \<open>p\<close> to the number of samples
  predicted as \<open>p\<close>. For the labels \<open>[0,1,1,0]\<close> and the predictions \<open>[0,1,0,0]\<close> the
  report has the accuracy 3/4 and the matrix \<open>[[2,0],[1,1]]\<close>.
\<close>

theorem evaluation_metrics:
  fixes lib :: "('w, 'l) torch"
  assumes "0 < len (fst (HandGestureDataset fs TEST_DATA_DIR))"
    and "list_all (\<lambda>i. loaded fs (fst (HandGestureDataset fs TEST_DATA_DIR)) i \<noteq> None)
           [0..<len (fst (HandGestureDataset fs TEST_DATA_DIR))]"
  shows "let ds = fst (HandGestureDataset fs TEST_DATA_DIR);
             T = true_labels fs ds;
             P = predictions lib w fs ds
         in length T = len ds \<and> length P = len ds \<and>
            (\<exists>trace. evaluate_main lib fs w =
               Some (trace @
                       [AccuracyReport
                          (of_nat (card {i. i < len ds \<and> P ! i = T ! i}) / of_nat (len ds)),
                        ConfusionReport
                          [[pairs T P 0 0, pairs T P 0 1], [pairs T P 1 0, pairs T P 1 1]],
                        ClassificationReport (map name_of T) (map name_of P)],
                     Finished ())) \<and>
            (\<forall>t p. pairs T P t p = card {i. i < len ds \<and> T ! i = t \<and> P ! i = p}) \<and>
            pairs T P 0 0 + pairs T P 0 1 = count_list T 0 \<and>
            pairs T P 1 0 + pairs T P 1 1 = count_list T 1 \<and>
            pairs T P 0 0 + pairs T P 1 0 = count_list P 0 \<and>
            pairs T P 0 1 + pairs T P 1 1 = count_list P 1 \<and>
            (report [0, 1, 1, 0] [0, 1, 0, 0] :: py_error + ('w, 'l) event list) =
              Inr [AccuracyReport (3 / 4), ConfusionReport [[2, 0], [1, 1]],
                   ClassificationReport [''sfondo'', ''tap'', ''tap'', ''sfondo'']
                     [''sfondo'', ''tap'', ''sfondo'', ''sfondo'']]"
proof -
  let ?ds = "fst (HandGestureDataset fs TEST_DATA_DIR)"
  let ?T = "true_labels fs ?ds" and ?P = "predictions lib w fs ?ds"
  have l: "length ?T = len ?ds" "length ?P = len ?ds"
    by (simp_all add: true_labels_def predictions_def)
  have bT: "binary ?T"
    using assms(2) by (intro true_labels_binary HandGestureDataset_labels_binary)
  have bP: "binary ?P" by (rule predictions_binary)
  from l have e: "length ?T = length ?P" by simp
  from evaluate_main_reports [OF assms, of lib w] obtain trace lines where
    "evaluate_main lib fs w = Some (trace @ lines, Finished ())"
    and "report ?T ?P = Inr lines"
    by blast
  with report_binary [OF e bT bP, where ?'a = 'w and ?'b = 'l] l
  have "\<exists>trace. evaluate_main lib fs w =
               Some (trace @
                       [AccuracyReport
                          (of_nat (card {i. i < len ?ds \<and> ?P ! i = ?T ! i}) / of_nat (len ?ds)),
                        ConfusionReport
                          [[pairs ?T ?P 0 0, pairs ?T ?P 0 1], [pairs ?T ?P 1 0, pairs ?T ?P 1 1]],
                        ClassificationReport (map name_of ?T) (map name_of ?P)],
                     Finished ())"
    by auto
  moreover have "\<forall>t p. pairs ?T ?P t p = card {i. i < len ?ds \<and> ?T ! i = t \<and> ?P ! i = p}"
    using pairs_card [OF e] l by simp
  moreover note l pairs_row [OF e bP, of 0] pairs_row [OF e bP, of 1]
    pairs_column [OF e bT, of 0] pairs_column [OF e bT, of 1]
    report_scenario [where ?'a = 'w and ?'b = 'l]
  ultimately show ?thesis unfolding Let_def by blast
qed

theorem evaluation_metrics_witness:
  "0 < len (fst (HandGestureDataset test_fs TEST_DATA_DIR)) \<and>
   list_all (\<lambda>i. loaded test_fs (fst (HandGestureDataset test_fs TEST_DATA_DIR)) i \<noteq> None)
     [0..<len (fst (HandGestureDataset test_fs TEST_DATA_DIR))] \<and>
   true_labels test_fs test_ds = [0, 1, 0] \<and>
   predictions counting_lib 0 test_fs test_ds = [1, 1, 0] \<and>
   evaluate_main counting_lib test_fs 0 =
     Some ([Msg ''Caricamento dati di test...'', LoaderCreated 8 False False,
            Msg ''Caricamento modello addestrato...'', ModelCreated, WeightsLoaded 0,
            Msg ''Esecuzione delle predizioni sul test set...'',
            Log (JsonError ''dataset/test/tap/c.json''), Forward,
            AccuracyReport (2 / 3), ConfusionReport [[1, 1], [0, 1]],
            ClassificationReport [''sfondo'', ''tap'', ''sfondo''] [''tap'', ''tap'', ''sfondo'']],
           Finished ()) \<and>
   pairs (true_labels test_fs test_ds) (predictions counting_lib 0 test_fs test_ds) 0 0 +
   pairs (true_labels test_fs test_ds) (predictions counting_lib 0 test_fs test_ds) 0 1 =
     count_list (true_labels test_fs test_ds) 0 \<and>
   card {i. i < len test_ds \<and>
            predictions counting_lib 0 test_fs test_ds ! i = true_labels test_fs test_ds ! i} = 2"
proof -
  have h: "0 < len (fst (HandGestureDataset test_fs TEST_DATA_DIR))"
    "list_all (\<lambda>i. loaded test_fs (fst (HandGestureDataset test_fs TEST_DATA_DIR)) i \<noteq> None)
       [0..<len (fst (HandGestureDataset test_fs TEST_DATA_DIR))]"
    by code_simp+
  have v: "true_labels test_fs test_ds = [0, 1, 0]"
    "predictions counting_lib 0 test_fs test_ds = [1, 1, 0]"
    "evaluate_main counting_lib test_fs 0 =
     Some ([Msg ''Caricamento dati di test...'', LoaderCreated 8 False False,
            Msg ''Caricamento modello addestrato...'', ModelCreated, WeightsLoaded 0,
            Msg ''Esecuzione delle predizioni sul test set...'',
            Log (JsonError ''dataset/test/tap/c.json''), Forward,
            AccuracyReport (2 / 3), ConfusionReport [[1, 1], [0, 1]],
            ClassificationReport [''sfondo'', ''tap'', ''sfondo''] [''tap'', ''tap'', ''sfondo'']],
           Finished ())"
    by code_simp+
  have n: "len test_ds = 3" by (simp add: test_ds_def len_def)
  note t = evaluation_metrics [OF h, of counting_lib 0, unfolded Let_def test_dataset fst_conv]
  from t have r: "pairs (true_labels test_fs test_ds) (predictions counting_lib 0 test_fs test_ds) 0 0 +
   pairs (true_labels test_fs test_ds) (predictions counting_lib 0 test_fs test_ds) 0 1 =
     count_list (true_labels test_fs test_ds) 0"
    by blast
  from t obtain trace where "evaluate_main counting_lib test_fs 0 =
      Some (trace @
            [AccuracyReport
               (of_nat (card {i. i < len test_ds \<and>
                   predictions counting_lib 0 test_fs test_ds ! i = true_labels test_fs test_ds ! i}) /
                of_nat (len test_ds)),
             ConfusionReport
               [[pairs (true_labels test_fs test_ds) (predictions counting_lib 0 test_fs test_ds) 0 0,
                 pairs (true_labels test_fs test_ds) (predictions counting_lib 0 test_fs test_ds) 0 1],
                [pairs (true_labels test_fs test_ds) (predictions counting_lib 0 test_fs test_ds) 1 0,
                 pairs (true_labels test_fs test_ds) (predictions counting_lib 0 test_fs test_ds) 1 1]],
             ClassificationReport (map name_of (true_labels test_fs test_ds))
               (map name_of (predictions counting_lib 0 test_fs test_ds))],
            Finished ())"
    by blast
  with v(3) have "(of_nat (card {i. i < len test_ds \<and>
      predictions counting_lib 0 test_fs test_ds ! i = true_labels test_fs test_ds ! i}) :: rat) /
      of_nat (len test_ds) = 2 / 3"
    by (simp add: append_eq_Cons_conv)
  with n have c: "card {i. i < len test_ds \<and>
      predictions counting_lib 0 test_fs test_ds ! i = true_labels test_fs test_ds ! i} = 2"
    by (simp add: field_simps)
  from h v r c show ?thesis by - (intro conjI; assumption)
qed

section \<open>The two scripts\<close>

lemma train_model_empty:
  assumes "len (fst (HandGestureDataset fs DATA_DIR)) = 0"
  shows "train_model lib fs =
     Some (Msg ''Caricamento dati...'' # map Log (snd (HandGestureDataset fs DATA_DIR)) @
             [Msg (''Errore: Nessun dato trovato nella cartella di training. '' @
                   ''Controlla il percorso e la struttura delle cartelle.'')],
           SystemExit None)"
  using assms by (simp add: train_model_def Let_def)

lemma evaluate_main_empty:
  assumes "len (fst (HandGestureDataset fs TEST_DATA_DIR)) = 0"
  shows "evaluate_main lib fs w =
     Some (Msg ''Caricamento dati di test...'' #
             map Log (snd (HandGestureDataset fs TEST_DATA_DIR)) @
             [Msg (''Errore: Nessun dato trovato nella cartella di test: '' @ TEST_DATA_DIR)],
           SystemExit None)"
  using assms by (simp add: evaluate_main_def Let_def)

text \<open>
  The whole evaluation script reaches its check of the test directory only after the
  import has run the training script to its end.
\<close>

lemma evaluate_model_empty_test_set:
  assumes "train_model lib fs = Some (trace, Finished w)"
    and "len (fst (HandGestureDataset fs TEST_DATA_DIR)) = 0"
  shows "evaluate_model lib fs =
     Some (trace @ Msg ''Caricamento dati di test...'' #
             map Log (snd (HandGestureDataset fs TEST_DATA_DIR)) @
             [Msg (''Errore: Nessun dato trovato nella cartella di test: '' @ TEST_DATA_DIR)],
           SystemExit None)"
  using assms by (simp add: evaluate_model_def evaluate_main_empty)

lemma evaluate_model_training_halts:
  assumes "len (fst (HandGestureDataset fs DATA_DIR)) = 0"
  shows "evaluate_model lib fs =
     Some (Msg ''Caricamento dati...'' # map Log (snd (HandGestureDataset fs DATA_DIR)) @
             [Msg (''Errore: Nessun dato trovato nella cartella di training. '' @
                   ''Controlla il percorso e la struttura delle cartelle.'')],
           SystemExit None)"
  using assms by (simp add: evaluate_model_def train_model_empty)

lemma no_dataset_empty:
  "HandGestureDataset no_dataset DATA_DIR =
     (\<lparr>data_files = [], labels = []\<rparr>,
      [MissingDir ''dataset/train/sfondo'', MissingDir ''dataset/train/tap''])"
  "HandGestureDataset no_dataset TEST_DATA_DIR =
     (\<lparr>data_files = [], labels = []\<rparr>,
      [MissingDir ''dataset/test/sfondo'', MissingDir ''dataset/test/tap''])"
  by code_simp+

text \<open>
  Claim C3 as stated fails: with no dataset directory the index of the training script is
  empty, the script prints its error message and calls \<^verbatim>\<open>exit()\<close> with no argument, and
  the exit status of the process is 0.
\<close>

theorem empty_training_set_exit_status:
  "len (fst (HandGestureDataset no_dataset DATA_DIR)) = 0 \<and>
   train_model counting_lib no_dataset =
     Some ([Msg ''Caricamento dati...'',
            Log (MissingDir ''dataset/train/sfondo''), Log (MissingDir ''dataset/train/tap''),
            Msg (''Errore: Nessun dato trovato nella cartella di training. '' @
                 ''Controlla il percorso e la struttura delle cartelle.'')],
           SystemExit None) \<and>
   exit_status (SystemExit None :: nat outcome) = 0"
proof -
  have "len (fst (HandGestureDataset no_dataset DATA_DIR)) = 0"
    by (simp add: no_dataset_empty len_def)
  from train_model_empty [OF this, of counting_lib] this show ?thesis
    by (simp add: no_dataset_empty)
qed

text \<open>
  Claim C3, amended. When the training directory yields zero samples, \<^verbatim>\<open>train_model.py\<close>
  prints the warnings of the constructor and its error message and halts through
  \<^verbatim>\<open>exit()\<close>: no loader and no model is built, no epoch runs and nothing is saved. When
  the test directory yields zero samples, lines 20-67 of \<^verbatim>\<open>evaluate_model.py\<close> halt in the
  same way: no model is built, no weights are loaded and nothing is predicted or reported.
  In both cases the exit status of the process is 0.
\<close>

theorem empty_dataset_halts:
  "(len (fst (HandGestureDataset fs DATA_DIR)) = 0 \<longrightarrow>
      train_model lib fs =
        Some (Msg ''Caricamento dati...'' # map Log (snd (HandGestureDataset fs DATA_DIR)) @
                [Msg (''Errore: Nessun dato trovato nella cartella di training. '' @
                      ''Controlla il percorso e la struttura delle cartelle.'')],
              SystemExit None)) \<and>
   (len (fst (HandGestureDataset fs TEST_DATA_DIR)) = 0 \<longrightarrow>
      evaluate_main lib fs w =
        Some (Msg ''Caricamento dati di test...'' #
                map Log (snd (HandGestureDataset fs TEST_DATA_DIR)) @
                [Msg (''Errore: Nessun dato trovato nella cartella di test: '' @ TEST_DATA_DIR)],
              SystemExit None)) \<and>
   exit_status (SystemExit None :: 'w outcome) = 0 \<and>
   exit_status (SystemExit None :: unit outcome) = 0"
  by (simp add: train_model_empty evaluate_main_empty)

theorem empty_dataset_halts_witness:
  "len (fst (HandGestureDataset no_dataset DATA_DIR)) = 0 \<and>
   len (fst (HandGestureDataset no_dataset TEST_DATA_DIR)) = 0 \<and>
   train_model counting_lib no_dataset =
     Some ([Msg ''Caricamento dati...'',
            Log (MissingDir ''dataset/train/sfondo''), Log (MissingDir ''dataset/train/tap''),
            Msg (''Errore: Nessun dato trovato nella cartella di training. '' @
                 ''Controlla il percorso e la struttura delle cartelle.'')],
           SystemExit None) \<and>
   evaluate_main counting_lib no_dataset 0 =
     Some ([Msg ''Caricamento dati di test...'',
            Log (MissingDir ''dataset/test/sfondo''), Log (MissingDir ''dataset/test/tap''),
            Msg ''Errore: Nessun dato trovato nella cartella di test: dataset/test''],
           SystemExit None)"
proof -
  have h: "len (fst (HandGestureDataset no_dataset DATA_DIR)) = 0"
    "len (fst (HandGestureDataset no_dataset TEST_DATA_DIR)) = 0"
    by (simp_all add: no_dataset_empty len_def)
  from h empty_dataset_halts [of no_dataset counting_lib 0]
  have a: "train_model counting_lib no_dataset =
        Some (Msg ''Caricamento dati...'' # map Log (snd (HandGestureDataset no_dataset DATA_DIR)) @
                [Msg (''Errore: Nessun dato trovato nella cartella di training. '' @
                      ''Controlla il percorso e la struttura delle cartelle.'')],
              SystemExit None)"
    and b: "evaluate_main counting_lib no_dataset 0 =
        Some (Msg ''Caricamento dati di test...'' #
                map Log (snd (HandGestureDataset no_dataset TEST_DATA_DIR)) @
                [Msg (''Errore: Nessun dato trovato nella cartella di test: '' @ TEST_DATA_DIR)],
              SystemExit None)"
    by blast+
  have t: "snd (HandGestureDataset no_dataset TEST_DATA_DIR) =
      [MissingDir ''dataset/test/sfondo'', MissingDir ''dataset/test/tap'']"
    by (simp add: no_dataset_empty)
  from a have a': "train_model counting_lib no_dataset =
     Some ([Msg ''Caricamento dati...'',
            Log (MissingDir ''dataset/train/sfondo''), Log (MissingDir ''dataset/train/tap''),
            Msg (''Errore: Nessun dato trovato nella cartella di training. '' @
                 ''Controlla il percorso e la struttura delle cartelle.'')],
           SystemExit None)"
    by (simp add: no_dataset_empty)
  from b have b': "evaluate_main counting_lib no_dataset 0 =
     Some ([Msg ''Caricamento dati di test...'',
            Log (MissingDir ''dataset/test/sfondo''), Log (MissingDir ''dataset/test/tap''),
            Msg ''Errore: Nessun dato trovato nella cartella di test: dataset/test''],
           SystemExit None)"
    unfolding t by (simp add: TEST_DATA_DIR_def)
  from h a' b' show ?thesis by - (intro conjI; assumption)
qed

lemma train_epochs_no_batch:
  assumes "len ds < BATCH_SIZE"
  shows "train_epochs lib fs ds (epoch # rest) (w, None) = Some ([], Inl NameError)"
  using assms by (simp add: batch_sampler_short sampler_def)

text \<open>
  Claim C10. For every training directory with \<open>0 < size() < 16\<close>, the batch sequence of
  every epoch is empty; the script builds the loader and the model and prints that the
  training starts, the inner loop of the first epoch runs no step, and line 149 raises
  \<^verbatim>\<open>NameError\<close> for the variable \<^verbatim>\<open>loss\<close>: no epoch is reported, nothing is saved, and
  the process ends with the exit status 1 of an uncaught exception.
\<close>

theorem short_dataset_name_error:
  assumes "0 < len (fst (HandGestureDataset fs DATA_DIR))"
    and "len (fst (HandGestureDataset fs DATA_DIR)) < BATCH_SIZE"
  shows "batch_sampler BATCH_SIZE True
           (sampler True (random_keys lib epoch) (len (fst (HandGestureDataset fs DATA_DIR)))) = [] \<and>
    train_model lib fs =
      Some (Msg ''Caricamento dati...'' # map Log (snd (HandGestureDataset fs DATA_DIR)) @
              [LoaderCreated BATCH_SIZE True True, Msg ''Inizializzazione modello...'',
               ModelCreated, Msg ''Inizio training...''],
            Uncaught NameError) \<and>
    exit_status (Uncaught NameError :: 'w outcome) = 1"
proof -
  have "[0..<NUM_EPOCHS] = 0 # [1..<NUM_EPOCHS]"
    by (simp add: NUM_EPOCHS_def upt_rec)
  with assms have "train_model lib fs =
      Some (Msg ''Caricamento dati...'' # map Log (snd (HandGestureDataset fs DATA_DIR)) @
              [LoaderCreated BATCH_SIZE True True, Msg ''Inizializzazione modello...'',
               ModelCreated, Msg ''Inizio training...''],
            Uncaught NameError)"
    by (simp add: train_model_def Let_def train_epochs_no_batch del: train_epochs.simps)
  moreover from assms(2) have "batch_sampler BATCH_SIZE True
      (sampler True (random_keys lib epoch) (len (fst (HandGestureDataset fs DATA_DIR)))) = []"
    by (simp add: batch_sampler_short length_sampler)
  ultimately show ?thesis by simp
qed

theorem short_dataset_name_error_witness:
  "0 < len (fst (HandGestureDataset small_fs DATA_DIR)) \<and>
   len (fst (HandGestureDataset small_fs DATA_DIR)) < BATCH_SIZE \<and>
   len (fst (HandGestureDataset small_fs DATA_DIR)) = 4 \<and>
   train_model counting_lib small_fs =
     Some ([Msg ''Caricamento dati...'', LoaderCreated 16 True True,
            Msg ''Inizializzazione modello...'', ModelCreated, Msg ''Inizio training...''],
           Uncaught NameError)"
proof -
  have h: "0 < len (fst (HandGestureDataset small_fs DATA_DIR))"
    "len (fst (HandGestureDataset small_fs DATA_DIR)) < BATCH_SIZE"
    by (simp_all add: small_dataset small_ds_def len_def BATCH_SIZE_def)
  have "len (fst (HandGestureDataset small_fs DATA_DIR)) = 4"
    by (simp add: small_dataset small_ds_def len_def)
  with short_dataset_name_error [OF h, of counting_lib 0] h show ?thesis
    by (simp add: small_dataset BATCH_SIZE_def)
qed

end
